theory Spec2Isabelle
  imports Main
begin

section \<open>Strings\<close>

text \<open>
  A JavaScript string is a sequence of UTF-16 code units. A code unit is modelled by its
  numeric value; every operation below only compares code units or tests them against
  ranges. String literals of the source are written \<open>js ''...''\<close>.
\<close>

type_synonym jstring = "nat list"

abbreviation js :: "string \<Rightarrow> jstring" where
  "js s \<equiv> map of_char s"

text \<open>Truthiness of a \<open>string | undefined\<close> value: defined and not empty.\<close>

fun truthy :: "jstring option \<Rightarrow> bool" where
  "truthy None = False"
| "truthy (Some s) = (s \<noteq> [])"

text \<open>\<open>a ?? b\<close> on optional values.\<close>

fun nullish :: "'a option \<Rightarrow> 'a option \<Rightarrow> 'a option" where
  "nullish (Some a) b = Some a"
| "nullish None b = b"

text \<open>\<open>String.prototype.indexOf\<close> for a single code unit: \<open>-1\<close> when absent.\<close>

fun indexOf :: "jstring \<Rightarrow> nat \<Rightarrow> int" where
  "indexOf [] c = -1"
| "indexOf (x # xs) c =
     (if x = c then 0 else (let i = indexOf xs c in if i < 0 then -1 else i + 1))"

text \<open>\<open>String.prototype.startsWith\<close> and \<open>includes\<close>.\<close>

fun startsWith :: "jstring \<Rightarrow> jstring \<Rightarrow> bool" where
  "startsWith s [] = True"
| "startsWith [] (p # ps) = False"
| "startsWith (c # cs) (p # ps) = (c = p \<and> startsWith cs ps)"

fun str_includes :: "jstring \<Rightarrow> jstring \<Rightarrow> bool" where
  "str_includes [] p = (p = [])"
| "str_includes (c # cs) p = (startsWith (c # cs) p \<or> str_includes cs p)"

section \<open>API keys and the key resolver (api-keys.ts)\<close>

record ProviderConfig =
  apiKey :: jstring
  baseUrl :: "jstring option"

record ApiKeysConfig =
  providers :: "jstring \<rightharpoonup> ProviderConfig"

definition PROVIDER_ENDPOINTS :: "jstring \<rightharpoonup> jstring" where
  "PROVIDER_ENDPOINTS = map_of
     [(js ''openai'', js ''https://api.openai.com/v1''),
      (js ''anthropic'', js ''https://api.anthropic.com/v1''),
      (js ''google'', js ''https://generativelanguage.googleapis.com/v1beta''),
      (js ''xai'', js ''https://api.x.ai/v1''),
      (js ''deepseek'', js ''https://api.deepseek.com/v1''),
      (js ''moonshot'', js ''https://api.moonshot.cn/v1''),
      (js ''nvidia'', js ''https://integrate.api.nvidia.com/v1''),
      (js ''openrouter'', js ''https://openrouter.ai/api/v1'')]"

definition OPENAI_COMPATIBLE_PROVIDERS :: "jstring list" where
  "OPENAI_COMPATIBLE_PROVIDERS =
     [js ''openai'', js ''xai'', js ''deepseek'', js ''moonshot'', js ''nvidia'']"

definition getApiKey :: "ApiKeysConfig \<Rightarrow> jstring \<Rightarrow> jstring option" where
  "getApiKey config provider = map_option apiKey (providers config provider)"

definition getProviderBaseUrl :: "ApiKeysConfig \<Rightarrow> jstring \<Rightarrow> jstring option" where
  "getProviderBaseUrl config provider =
     nullish (case providers config provider of None \<Rightarrow> None | Some pc \<Rightarrow> baseUrl pc)
             (PROVIDER_ENDPOINTS provider)"

definition getProviderFromModel :: "jstring \<Rightarrow> jstring" where
  "getProviderFromModel modelId =
     (let slash = indexOf modelId 47 in
      if slash > 0 then take (nat slash) modelId else modelId)"

definition hasOpenRouter :: "ApiKeysConfig \<Rightarrow> bool" where
  "hasOpenRouter config = truthy (getApiKey config (js ''openrouter''))"

record ProviderAccess =
  access_apiKey :: jstring
  access_baseUrl :: "jstring option"
  provider :: jstring
  viaOpenRouter :: bool

text \<open>
  \<open>resolveProviderAccess\<close>, branch by branch. The returned \<open>baseUrl\<close> is
  \<open>config.providers.openrouter?.baseUrl ?? PROVIDER_ENDPOINTS.openrouter\<close> on the two
  gateway branches, hence an optional value here.
\<close>

definition resolveProviderAccess :: "ApiKeysConfig \<Rightarrow> jstring \<Rightarrow> ProviderAccess option" where
  "resolveProviderAccess config modelId =
     (let provider = getProviderFromModel modelId;
          needsConversion = (provider = js ''anthropic'' \<or> provider = js ''google'');
          orKey = getApiKey config (js ''openrouter'');
          orUrl = nullish (case providers config (js ''openrouter'') of
                             None \<Rightarrow> None | Some pc \<Rightarrow> baseUrl pc)
                          (PROVIDER_ENDPOINTS (js ''openrouter''));
          directKey = getApiKey config provider;
          directUrl = getProviderBaseUrl config provider
      in if needsConversion \<and> truthy orKey then
           Some \<lparr>access_apiKey = the orKey, access_baseUrl = orUrl,
                 provider = js ''openrouter'', viaOpenRouter = True\<rparr>
         else if truthy directKey \<and> truthy directUrl
                 \<and> provider \<in> set OPENAI_COMPATIBLE_PROVIDERS then
           Some \<lparr>access_apiKey = the directKey, access_baseUrl = directUrl,
                 provider = provider, viaOpenRouter = False\<rparr>
         else if truthy orKey then
           Some \<lparr>access_apiKey = the orKey, access_baseUrl = orUrl,
                 provider = js ''openrouter'', viaOpenRouter = True\<rparr>
         else None)"

definition isModelAccessible :: "ApiKeysConfig \<Rightarrow> jstring \<Rightarrow> bool" where
  "isModelAccessible config modelId = (resolveProviderAccess config modelId \<noteq> None)"

subsection \<open>The key resolver as the specification words it\<close>

text \<open>
  The four numbered steps of the specification's key resolver, written from its words.
  A provider needs dialect translation when it is not natively OpenAI-compatible; a key
  exists when it is configured and not empty; the gateway is the provider \<open>openrouter\<close>;
  the base URL of an access is the configured override, else the default endpoint.
\<close>

definition speaksDialectA :: "jstring \<Rightarrow> bool" where
  "speaksDialectA p = (p \<in> set OPENAI_COMPATIBLE_PROVIDERS)"

definition gatewayAccess :: "ApiKeysConfig \<Rightarrow> ProviderAccess" where
  "gatewayAccess config =
     \<lparr>access_apiKey = the (getApiKey config (js ''openrouter'')),
      access_baseUrl = getProviderBaseUrl config (js ''openrouter''),
      provider = js ''openrouter'', viaOpenRouter = True\<rparr>"

definition directAccess :: "ApiKeysConfig \<Rightarrow> jstring \<Rightarrow> ProviderAccess" where
  "directAccess config p =
     \<lparr>access_apiKey = the (getApiKey config p),
      access_baseUrl = getProviderBaseUrl config p,
      provider = p, viaOpenRouter = False\<rparr>"

definition keyResolver_spec :: "ApiKeysConfig \<Rightarrow> jstring \<Rightarrow> ProviderAccess option" where
  "keyResolver_spec config modelId =
     (let p = getProviderFromModel modelId in
      if \<not> speaksDialectA p \<and> hasOpenRouter config then Some (gatewayAccess config)
      else if truthy (getApiKey config p) \<and> speaksDialectA p then Some (directAccess config p)
      else if hasOpenRouter config then Some (gatewayAccess config)
      else None)"

text \<open>The configuration of the counterexample: a direct OpenAI key whose base URL
  override is the empty string, and no gateway key.\<close>

definition emptyUrlConfig :: ApiKeysConfig where
  "emptyUrlConfig =
     \<lparr>providers = [js ''openai'' \<mapsto> \<lparr>apiKey = js ''sk-1'', baseUrl = Some []\<rparr>]\<rparr>"

text \<open>A configuration with direct keys for Anthropic, Google and OpenAI and no gateway
  key.\<close>

definition directOnlyConfig :: ApiKeysConfig where
  "directOnlyConfig =
     \<lparr>providers = [js ''anthropic'' \<mapsto> \<lparr>apiKey = js ''sk-ant'', baseUrl = None\<rparr>,
                   js ''google'' \<mapsto> \<lparr>apiKey = js ''AIza'', baseUrl = None\<rparr>,
                   js ''openai'' \<mapsto> \<lparr>apiKey = js ''sk-1'', baseUrl = None\<rparr>]\<rparr>"

section \<open>Regular expressions\<close>

text \<open>
  The fragment of JavaScript regular expressions that the patterns of \<open>proxy.ts\<close>
  use: a single code unit from a class (\<open>Chr\<close>), sequence, alternation with the left
  branch tried first, the greedy and the lazy star of a class, the word boundary
  \<open>\b\<close>, and the empty pattern (\<open>x?\<close> is \<open>Alt x Eps\<close>). None of the patterns
  captures or looks around, so a match is decided by backtracking alone.
\<close>

datatype re =
    Eps
  | Chr "nat \<Rightarrow> bool"
  | Seq re re
  | Alt re re
  | Star "nat \<Rightarrow> bool"
  | LazyStar "nat \<Rightarrow> bool"
  | WordB

primrec weight :: "re \<Rightarrow> nat" where
  "weight Eps = 1"
| "weight (Chr P) = 1"
| "weight (Seq a b) = weight a + weight b + 1"
| "weight (Alt a b) = weight a + weight b + 1"
| "weight (Star P) = 1"
| "weight (LazyStar P) = 1"
| "weight WordB = 1"

text \<open>The word characters of \<open>\b\<close>: \<open>[A-Za-z0-9_]\<close>; the start and the end of
  the input count as no word character.\<close>

definition isWordChar :: "nat option \<Rightarrow> bool" where
  "isWordChar c = (case c of None \<Rightarrow> False
     | Some x \<Rightarrow> (97 \<le> x \<and> x \<le> 122) \<or> (65 \<le> x \<and> x \<le> 90) \<or> (48 \<le> x \<and> x \<le> 57) \<or> x = 95)"

fun peek :: "jstring \<Rightarrow> nat option" where
  "peek [] = None"
| "peek (c # cs) = Some c"

text \<open>
  \<open>rmatch k prev s\<close> matches the patterns of the list \<open>k\<close>, one after the other,
  against a prefix of \<open>s\<close>, \<open>prev\<close> being the code unit before \<open>s\<close>. It explores
  the alternatives in the order of a backtracking matcher (left branch first, greedy star
  longest first, lazy star shortest first) and returns the number of code units the first
  successful alternative consumes.
\<close>

function (sequential) rmatch :: "re list \<Rightarrow> nat option \<Rightarrow> jstring \<Rightarrow> nat option" where
  "rmatch [] prev s = Some 0"
| "rmatch (Eps # k) prev s = rmatch k prev s"
| "rmatch (Chr P # k) prev [] = None"
| "rmatch (Chr P # k) prev (c # cs) =
     (if P c then map_option Suc (rmatch k (Some c) cs) else None)"
| "rmatch (Seq a b # k) prev s = rmatch (a # b # k) prev s"
| "rmatch (Alt a b # k) prev s =
     (case rmatch (a # k) prev s of Some n \<Rightarrow> Some n | None \<Rightarrow> rmatch (b # k) prev s)"
| "rmatch (Star P # k) prev [] = rmatch k prev []"
| "rmatch (Star P # k) prev (c # cs) =
     (if P c then
        (case rmatch (Star P # k) (Some c) cs of
           Some n \<Rightarrow> Some (Suc n)
         | None \<Rightarrow> rmatch k prev (c # cs))
      else rmatch k prev (c # cs))"
| "rmatch (LazyStar P # k) prev [] = rmatch k prev []"
| "rmatch (LazyStar P # k) prev (c # cs) =
     (case rmatch k prev (c # cs) of
        Some n \<Rightarrow> Some n
      | None \<Rightarrow> if P c then map_option Suc (rmatch (LazyStar P # k) (Some c) cs) else None)"
| "rmatch (WordB # k) prev s =
     (if isWordChar prev \<noteq> isWordChar (peek s) then rmatch k prev s else None)"
  by pat_completeness auto
termination
  by (relation "measures [\<lambda>(k, prev, s). length s, \<lambda>(k, prev, s). sum_list (map weight k)]") auto

text \<open>\<open>RegExp.prototype.test\<close> of a pattern without the \<open>g\<close> flag: some position of
  the input starts a match.\<close>

fun re_test :: "re list \<Rightarrow> nat option \<Rightarrow> jstring \<Rightarrow> bool" where
  "re_test r prev [] = (rmatch r prev [] \<noteq> None)"
| "re_test r prev (c # cs) = (rmatch r prev (c # cs) \<noteq> None \<or> re_test r (Some c) cs)"

text \<open>
  The \<open>i\<close> flag (without \<open>u\<close>) compares canonicalised code units. A code unit
  outside ASCII never canonicalises to an ASCII one, so against the ASCII letters of the
  patterns here canonicalisation is the upper-casing of \<open>a\<close> to \<open>z\<close>. \<open>lit_i w\<close> is
  the literal \<open>w\<close> under the \<open>i\<close> flag; \<open>dot\<close> is the class of \<open>.\<close>, every code
  unit but the four line terminators.
\<close>

definition canon :: "nat \<Rightarrow> nat" where
  "canon c = (if 97 \<le> c \<and> c \<le> 122 then c - 32 else c)"

definition lit_i :: "string \<Rightarrow> re list" where
  "lit_i w = map (\<lambda>c. Chr (\<lambda>x. canon x = canon (of_char c))) w"

definition dot :: "nat \<Rightarrow> bool" where
  "dot c = (c \<noteq> 10 \<and> c \<noteq> 13 \<and> c \<noteq> 8232 \<and> c \<noteq> 8233)"

definition PROVIDER_ERROR_PATTERNS :: "re list list" where
  "PROVIDER_ERROR_PATTERNS =
     [lit_i ''billing'',
      lit_i ''insufficient'' @ [Star dot] @ lit_i ''balance'',
      lit_i ''credits'',
      lit_i ''quota'' @ [Star dot] @ lit_i ''exceeded'',
      lit_i ''rate'' @ [Star dot] @ lit_i ''limit'',
      lit_i ''model'' @ [Star dot] @ lit_i ''unavailable'',
      lit_i ''service'' @ [Star dot] @ lit_i ''unavailable'',
      lit_i ''capacity'',
      lit_i ''overloaded'',
      lit_i ''temporarily'' @ [Star dot] @ lit_i ''unavailable'',
      lit_i ''api'' @ [Star dot] @ lit_i ''key'' @ [Star dot] @ lit_i ''invalid'',
      lit_i ''authentication'' @ [Star dot] @ lit_i ''failed'']"

definition FALLBACK_STATUS_CODES :: "nat list" where
  "FALLBACK_STATUS_CODES = [400, 401, 402, 403, 429, 500, 502, 503, 504]"

definition isProviderError :: "nat \<Rightarrow> jstring \<Rightarrow> bool" where
  "isProviderError status body =
     (if status \<notin> set FALLBACK_STATUS_CODES then False
      else if status \<ge> 500 then True
      else list_ex (\<lambda>pattern. re_test pattern None body) PROVIDER_ERROR_PATTERNS)"

subsection \<open>What the patterns mean\<close>

text \<open>
  The meaning of the provider error patterns in words that do not mention the matcher:
  \<open>mentions b w\<close> says that \<open>b\<close> contains the word \<open>w\<close> in some mix of upper and
  lower case, \<open>mentionsThen b w1 w2\<close> that \<open>w1\<close> is followed, after any number of code
  units that are no line terminators, by \<open>w2\<close>. \<open>canMatch\<close> says that the matcher
  succeeds, \<open>lastOr prev x\<close> is the last code unit of \<open>x\<close>, or \<open>prev\<close> when \<open>x\<close> is
  empty.
\<close>

fun lastOr :: "nat option \<Rightarrow> jstring \<Rightarrow> nat option" where
  "lastOr prev [] = prev"
| "lastOr prev (c # cs) = lastOr (Some c) cs"

definition sameFolded :: "jstring \<Rightarrow> string \<Rightarrow> bool" where
  "sameFolded x w = (map canon x = map canon (js w))"

definition canMatch :: "re list \<Rightarrow> nat option \<Rightarrow> jstring \<Rightarrow> bool" where
  "canMatch k prev s = (rmatch k prev s \<noteq> None)"

definition mentions :: "jstring \<Rightarrow> string \<Rightarrow> bool" where
  "mentions b w = (\<exists>u x v. b = u @ x @ v \<and> sameFolded x w)"

definition mentionsThen :: "jstring \<Rightarrow> string \<Rightarrow> string \<Rightarrow> bool" where
  "mentionsThen b w1 w2 =
     (\<exists>u x m y v. b = u @ x @ m @ y @ v \<and> sameFolded x w1 \<and> list_all dot m \<and> sameFolded y w2)"

definition mentionsThenThen :: "jstring \<Rightarrow> string \<Rightarrow> string \<Rightarrow> string \<Rightarrow> bool" where
  "mentionsThenThen b w1 w2 w3 =
     (\<exists>u x m y n z v. b = u @ x @ m @ y @ n @ z @ v \<and> sameFolded x w1 \<and> list_all dot m
        \<and> sameFolded y w2 \<and> list_all dot n \<and> sameFolded z w3)"

section \<open>Rate-limit map\<close>

text \<open>
  The module-level map \<open>rateLimitedModels\<close> from model id to the time of the last 429,
  passed in and handed back by the functions that read or write it. \<open>Date.now()\<close> is
  the argument \<open>now\<close>.
\<close>

type_synonym rateLimits = "jstring \<rightharpoonup> int"

definition RATE_LIMIT_COOLDOWN_MS :: int where
  "RATE_LIMIT_COOLDOWN_MS = 60000"

definition MAX_FALLBACK_ATTEMPTS :: nat where
  "MAX_FALLBACK_ATTEMPTS = 3"

definition isRateLimited :: "rateLimits \<Rightarrow> int \<Rightarrow> jstring \<Rightarrow> bool \<times> rateLimits" where
  "isRateLimited rateLimitedModels now modelId =
     (case rateLimitedModels modelId of
        None \<Rightarrow> (False, rateLimitedModels)
      | Some hitTime \<Rightarrow>
          if hitTime = 0 then (False, rateLimitedModels)
          else if now - hitTime \<ge> RATE_LIMIT_COOLDOWN_MS
            then (False, rateLimitedModels(modelId := None))
          else (True, rateLimitedModels))"

definition markRateLimited :: "rateLimits \<Rightarrow> int \<Rightarrow> jstring \<Rightarrow> rateLimits" where
  "markRateLimited rateLimitedModels now modelId = rateLimitedModels(modelId \<mapsto> now)"

text \<open>The \<open>for\<close> loop of \<open>prioritizeNonRateLimited\<close> with its two arrays; the loop is
  synchronous and is taken to see a single reading of the clock.\<close>

fun prioritize_loop ::
  "rateLimits \<Rightarrow> int \<Rightarrow> jstring list \<Rightarrow> jstring list \<Rightarrow> jstring list
     \<Rightarrow> (jstring list \<times> jstring list) \<times> rateLimits" where
  "prioritize_loop rl now [] available limited = ((available, limited), rl)"
| "prioritize_loop rl now (model # models) available limited =
     (case isRateLimited rl now model of
        (True, rl') \<Rightarrow> prioritize_loop rl' now models available (limited @ [model])
      | (False, rl') \<Rightarrow> prioritize_loop rl' now models (available @ [model]) limited)"

definition prioritizeNonRateLimited ::
  "rateLimits \<Rightarrow> int \<Rightarrow> jstring list \<Rightarrow> jstring list \<times> rateLimits" where
  "prioritizeNonRateLimited rl now models =
     (case prioritize_loop rl now models [] [] of
        ((available, limited), rl') \<Rightarrow> (available @ limited, rl'))"

section \<open>One upstream attempt and the fallback loop (proxy.ts)\<close>

text \<open>
  What \<open>fetch\<close> did for one attempt: it resolved to a response with a status and a
  body text, or it threw with a message. The rewriting of the request body that
  \<open>tryModelRequest\<close> performs before the call is modelled on its own further down
  (\<open>normalizeForDispatch\<close>, \<open>convertToAnthropicFormat\<close>).
\<close>

datatype fetch_outcome = Responded nat jstring | Threw jstring

record ModelRequestResult =
  success :: bool
  response :: "(nat \<times> jstring) option"
  errorBody :: "jstring option"
  errorStatus :: "nat option"
  res_isProviderError :: "bool option"

definition tryModelRequest ::
  "ApiKeysConfig \<Rightarrow> jstring \<Rightarrow> fetch_outcome \<Rightarrow> ModelRequestResult" where
  "tryModelRequest apiKeys modelId net =
     (if resolveProviderAccess apiKeys modelId = None then
        \<lparr>success = False, response = None,
         errorBody = Some (js ''No API key configured for provider: ''
                           @ getProviderFromModel modelId
                           @ js '' (and no OpenRouter fallback)''),
         errorStatus = Some 401, res_isProviderError = Some True\<rparr>
      else case net of
        Responded status body \<Rightarrow>
          if status \<noteq> 200 then
            \<lparr>success = False, response = None, errorBody = Some body,
             errorStatus = Some status,
             res_isProviderError = Some (isProviderError status body)\<rparr>
          else
            \<lparr>success = True, response = Some (status, body), errorBody = None,
             errorStatus = None, res_isProviderError = None\<rparr>
      | Threw msg \<Rightarrow>
          \<lparr>success = False, response = None, errorBody = Some msg,
           errorStatus = Some 500, res_isProviderError = Some True\<rparr>)"

text \<open>
  The variables of the attempt loop. \<open>tried\<close> records the models handed to
  \<open>tryModelRequest\<close>, in order: the lines \<open>Trying model i/n\<close> of the log.
  \<open>strOr\<close> and \<open>numOr\<close> are \<open>||\<close> on a string and on a number.
\<close>

record LoopState =
  upstream :: "(nat \<times> jstring) option"
  lastError :: "(jstring \<times> nat) option"
  actualModelUsed :: jstring
  tried :: "jstring list"
  rateLimitedModels :: rateLimits

fun strOr :: "jstring option \<Rightarrow> jstring \<Rightarrow> jstring" where
  "strOr None d = d"
| "strOr (Some s) d = (if s = [] then d else s)"

fun numOr :: "nat option \<Rightarrow> nat \<Rightarrow> nat" where
  "numOr None d = d"
| "numOr (Some n) d = (if n = 0 then d else n)"

text \<open>The \<open>for\<close> loop over \<open>modelsToTry\<close>: \<open>net i m\<close> is what \<open>fetch\<close> does at
  attempt \<open>i\<close> for model \<open>m\<close>, \<open>clock i\<close> the reading of \<open>Date.now()\<close> there.\<close>

fun fallbackLoop ::
  "ApiKeysConfig \<Rightarrow> (nat \<Rightarrow> jstring \<Rightarrow> fetch_outcome) \<Rightarrow> (nat \<Rightarrow> int) \<Rightarrow> nat
     \<Rightarrow> jstring list \<Rightarrow> LoopState \<Rightarrow> LoopState" where
  "fallbackLoop apiKeys net clock i [] st = st"
| "fallbackLoop apiKeys net clock i (tryModel # rest) st =
     (let isLastAttempt = (rest = []);
          st1 = st\<lparr>tried := tried st @ [tryModel]\<rparr>;
          result = tryModelRequest apiKeys tryModel (net i tryModel)
      in if success result \<and> response result \<noteq> None then
           st1\<lparr>upstream := response result, actualModelUsed := tryModel\<rparr>
         else
           (let st2 = st1\<lparr>lastError :=
                        Some (strOr (errorBody result) (js ''Unknown error''),
                              numOr (errorStatus result) 500)\<rparr>
            in if res_isProviderError result = Some True \<and> \<not> isLastAttempt then
                 fallbackLoop apiKeys net clock (i + 1) rest
                   (if errorStatus result = Some 429
                    then st2\<lparr>rateLimitedModels :=
                               markRateLimited (rateLimitedModels st2) (clock i) tryModel\<rparr>
                    else st2)
               else st2))"

text \<open>
  Two parts of the loop body under names of their own. \<open>retryableFailure\<close> is what the
  loop tests of attempt \<open>i\<close> on model \<open>m\<close> before it thinks of another attempt: the
  first \<open>if\<close> was not taken (no success with a response) and \<open>result.isProviderError\<close>
  is set. \<open>afterFailure\<close> is the state the loop carries into attempt \<open>i + 1\<close> when it
  continues: the model is logged, \<open>lastError\<close> is written, and the model is marked
  rate-limited if the status was 429.
\<close>

definition retryableFailure ::
  "ApiKeysConfig \<Rightarrow> (nat \<Rightarrow> jstring \<Rightarrow> fetch_outcome) \<Rightarrow> nat \<Rightarrow> jstring \<Rightarrow> bool" where
  "retryableFailure apiKeys net i m =
     (let result = tryModelRequest apiKeys m (net i m)
      in \<not> (success result \<and> response result \<noteq> None)
         \<and> res_isProviderError result = Some True)"

definition afterFailure ::
  "ApiKeysConfig \<Rightarrow> (nat \<Rightarrow> jstring \<Rightarrow> fetch_outcome) \<Rightarrow> (nat \<Rightarrow> int) \<Rightarrow> nat \<Rightarrow> jstring
     \<Rightarrow> LoopState \<Rightarrow> LoopState" where
  "afterFailure apiKeys net clock i m st =
     (let result = tryModelRequest apiKeys m (net i m);
          st2 = st\<lparr>tried := tried st @ [m],
                    lastError := Some (strOr (errorBody result) (js ''Unknown error''),
                                       numOr (errorStatus result) 500)\<rparr>
      in if errorStatus result = Some 429
         then st2\<lparr>rateLimitedModels := markRateLimited (rateLimitedModels st2) (clock i) m\<rparr>
         else st2)"

section \<open>Building the list of models to try (proxy.ts)\<close>

datatype tier = SIMPLE | MEDIUM | COMPLEX | REASONING

record TierConfig =
  primary :: jstring
  fallback :: "jstring list"

record RoutingConfig =
  tiers :: "tier \<Rightarrow> TierConfig"
  agenticTiers :: "(tier \<Rightarrow> TierConfig) option"

record RoutingDecision =
  tier :: tier
  model :: jstring
  reasoning :: jstring

text \<open>
  \<open>getFallbackChainFiltered\<close> (imported from \<open>router/index.js\<close>) and
  \<open>getModelContextWindow\<close> (imported from \<open>models.js\<close>) are not among the source
  files. They are parameters of the functions below, which hand them the arguments
  \<open>proxyRequest\<close> hands them.
\<close>

type_synonym chainFilter =
  "tier \<Rightarrow> (tier \<Rightarrow> TierConfig) \<Rightarrow> int \<Rightarrow> (jstring \<Rightarrow> int) \<Rightarrow> jstring list"



text \<open>
  The \<open>try\<close> block of \<open>proxyRequest\<close> up to the end of the attempt loop: first the
  list \<open>modelsToTry\<close>, then the loop over it. \<open>bodyLength\<close> is the byte length of the
  outbound body. \<open>now\<close> is the reading of \<open>Date.now()\<close> during the partition by rate
  limit, a synchronous loop that is taken to see one reading; \<open>clock i\<close> is the reading
  at attempt \<open>i\<close> of the loop, which suspends between attempts.
\<close>

definition buildModelsToTry ::
  "ApiKeysConfig \<Rightarrow> RoutingConfig \<Rightarrow> chainFilter \<Rightarrow> (jstring \<Rightarrow> int) \<Rightarrow> rateLimits \<Rightarrow> int
     \<Rightarrow> RoutingDecision option \<Rightarrow> jstring \<Rightarrow> nat \<Rightarrow> int \<Rightarrow> jstring list \<times> rateLimits" where
  "buildModelsToTry apiKeys config getFallbackChainFiltered getModelContextWindow rl now
       routingDecision modelId bodyLength maxTokens =
     (case routingDecision of
        Some rd \<Rightarrow>
          (let estimatedInputTokens = int ((bodyLength + 3) div 4);
               estimatedTotalTokens = estimatedInputTokens + maxTokens;
               useAgenticTiers = (str_includes (reasoning rd) (js ''agentic'')
                                  \<and> agenticTiers config \<noteq> None);
               tierConfigs = (if useAgenticTiers then the (agenticTiers config)
                              else tiers config);
               contextFiltered = getFallbackChainFiltered (tier rd) tierConfigs
                                   estimatedTotalTokens getModelContextWindow;
               modelsToTry = take MAX_FALLBACK_ATTEMPTS contextFiltered;
               modelsToTry = filter (\<lambda>m. isModelAccessible apiKeys m) modelsToTry
           in prioritizeNonRateLimited rl now modelsToTry)
      | None \<Rightarrow> (if modelId \<noteq> [] then [modelId] else [], rl))"

definition attemptModels ::
  "ApiKeysConfig \<Rightarrow> RoutingConfig \<Rightarrow> chainFilter \<Rightarrow> (jstring \<Rightarrow> int)
     \<Rightarrow> (nat \<Rightarrow> jstring \<Rightarrow> fetch_outcome) \<Rightarrow> (nat \<Rightarrow> int) \<Rightarrow> rateLimits \<Rightarrow> int
     \<Rightarrow> RoutingDecision option \<Rightarrow> jstring \<Rightarrow> nat \<Rightarrow> int \<Rightarrow> LoopState" where
  "attemptModels apiKeys config getFallbackChainFiltered getModelContextWindow net clock rl now
       routingDecision modelId bodyLength maxTokens =
     (case buildModelsToTry apiKeys config getFallbackChainFiltered getModelContextWindow rl
             now routingDecision modelId bodyLength maxTokens of
        (modelsToTry, rl') \<Rightarrow>
          fallbackLoop apiKeys net clock 0 modelsToTry
            \<lparr>upstream = None, lastError = None, actualModelUsed = modelId, tried = [],
             rateLimitedModels = rl'\<rparr>)"

text \<open>
  Modelled from the spec: \<open>getFallbackChain\<close> of \<open>router/index.js\<close>, which is not
  among the source files. The specification gives a tier configuration as
  \<open>{primary, fallback: ordered list}\<close> and calls the fallback chain the ordered list
  of models tried on a retryable failure: the chain of a tier is its primary model
  followed by its fallback list.
\<close>

definition getFallbackChain :: "tier \<Rightarrow> (tier \<Rightarrow> TierConfig) \<Rightarrow> jstring list" where
  "getFallbackChain t tierConfigs = primary (tierConfigs t) # fallback (tierConfigs t)"

text \<open>
  Modelled from the spec: \<open>getFallbackChainFiltered\<close> of \<open>router/index.js\<close>, which
  is not among the source files. The specification keeps of the chain the models whose
  context window is at least \<open>estimatedInputTokens + max_tokens\<close> (a model with a
  smaller window \<open>is skipped without being called\<close>): the filtered chain is the chain
  without the models whose context window is below the estimated total, in the order of
  the chain.
\<close>

definition getFallbackChainFiltered :: chainFilter where
  "getFallbackChainFiltered t tierConfigs estimatedTotalTokens getContextWindow =
     filter (\<lambda>m. getContextWindow m \<ge> estimatedTotalTokens) (getFallbackChain t tierConfigs)"

text \<open>
  The step of \<open>proxyRequest\<close> that settles \<open>routingDecision\<close> and \<open>modelId\<close>, for a
  chat-completions body that parses. \<open>parsedModel\<close> is the body's \<open>model\<close> field;
  \<open>trimLower\<close> is \<open>trim().toLowerCase()\<close>; \<open>resolveModelAlias\<close> (\<open>models.js\<close>), the
  model \<open>pinned\<close> by the session entry of the request, if there is one
  (\<open>session.js\<close>), and the decision \<open>routed\<close> that \<open>route\<close> returns
  (\<open>router/index.js\<close>) are not among the source files and are parameters.
\<close>

definition isAutoModel :: "jstring \<Rightarrow> bool" where
  "isAutoModel normalizedModel =
     (normalizedModel = js ''clawrouter/auto'' \<or> normalizedModel = js ''auto''
      \<or> normalizedModel = js ''blockrun/auto'' \<or> normalizedModel = js ''clawrouter/auto'')"

definition classifyRequest ::
  "ApiKeysConfig \<Rightarrow> RoutingConfig \<Rightarrow> (jstring \<Rightarrow> jstring) \<Rightarrow> (jstring \<Rightarrow> jstring)
     \<Rightarrow> jstring option \<Rightarrow> RoutingDecision \<Rightarrow> jstring option
     \<Rightarrow> RoutingDecision option \<times> jstring" where
  "classifyRequest apiKeys config trimLower resolveModelAlias pinned routed parsedModel =
     (let modelId = strOr parsedModel [];
          normalizedModel = (case parsedModel of Some m \<Rightarrow> trimLower m | None \<Rightarrow> []);
          resolvedModel = resolveModelAlias normalizedModel;
          wasAlias = (resolvedModel \<noteq> normalizedModel);
          modelId = (if wasAlias \<and> \<not> isAutoModel normalizedModel then resolvedModel
                     else modelId)
      in if isAutoModel normalizedModel then
           (case pinned of
              Some sessionModel \<Rightarrow> (None, sessionModel)
            | None \<Rightarrow>
                (let routingDecision = routed;
                     routingDecision =
                       (if \<not> isModelAccessible apiKeys (model routingDecision) then
                          (let tierConfig = tiers config (tier routingDecision);
                               chain = primary tierConfig # fallback tierConfig
                           in case find (\<lambda>m. isModelAccessible apiKeys m) chain of
                                Some available \<Rightarrow>
                                  routingDecision
                                    \<lparr>model := available,
                                     reasoning := reasoning routingDecision
                                       @ js '' | rerouted to '' @ available
                                       @ js '' (key available)''\<rparr>
                              | None \<Rightarrow> routingDecision)
                        else routingDecision)
                 in (Some routingDecision, model routingDecision)))
         else (None, modelId))"

section \<open>Message normalisation and the messages dialect (proxy.ts)\<close>

text \<open>
  A chat message as its TypeScript type declares it: a role and a content that is a
  string or some other JSON value. Other JSON values are left opaque (type \<open>'v\<close>).
\<close>

datatype 'v content = Text jstring | Structured 'v

record 'v ChatMessage =
  role :: jstring
  content :: "'v content"

definition VALID_ROLES :: "jstring list" where
  "VALID_ROLES = [js ''system'', js ''user'', js ''assistant'', js ''tool'', js ''function'']"

definition ROLE_MAPPINGS :: "jstring \<rightharpoonup> jstring" where
  "ROLE_MAPPINGS = map_of [(js ''developer'', js ''system''), (js ''model'', js ''assistant'')]"

text \<open>
  \<open>ROLE_MAPPINGS\<close> is an object literal, so the lookup \<open>ROLE_MAPPINGS[msg.role]\<close>
  finds, besides the two keys of the literal, the properties every object inherits from
  \<open>Object.prototype\<close>. For a role that has one of those names the lookup yields a
  function (for \<open>__proto__\<close>, the prototype object), which is truthy and becomes the
  role of the message. Such a role is not a string. It is written \<open>nonStringRole\<close>
  here: a list holding a value that is no UTF-16 code unit, so that it differs from
  every string and each comparison of a role with a string literal further down the
  pipeline is false on it, as it is in the code.
\<close>

definition OBJECT_PROTOTYPE_KEYS :: "jstring list" where
  "OBJECT_PROTOTYPE_KEYS =
     [js ''constructor'', js ''hasOwnProperty'', js ''isPrototypeOf'',
      js ''propertyIsEnumerable'', js ''toLocaleString'', js ''toString'', js ''valueOf'',
      js ''__proto__'', js ''__defineGetter__'', js ''__defineSetter__'',
      js ''__lookupGetter__'', js ''__lookupSetter__'']"

definition nonStringRole :: jstring where
  "nonStringRole = [65536]"

definition lookupRoleMapping :: "jstring \<rightharpoonup> jstring" where
  "lookupRoleMapping r =
     (case ROLE_MAPPINGS r of
        Some mapped \<Rightarrow> Some mapped
      | None \<Rightarrow> if r \<in> set OBJECT_PROTOTYPE_KEYS then Some nonStringRole else None)"

definition normalizeMessageRoles :: "'v ChatMessage list \<Rightarrow> 'v ChatMessage list" where
  "normalizeMessageRoles messages =
     (if messages = [] then messages
      else
        (let hasChanges = list_ex (\<lambda>msg. role msg \<notin> set VALID_ROLES) messages;
             normalized = map (\<lambda>msg.
               if role msg \<in> set VALID_ROLES then msg
               else (case lookupRoleMapping (role msg) of
                       Some mapped \<Rightarrow> msg\<lparr>role := mapped\<rparr>
                     | None \<Rightarrow> msg\<lparr>role := js ''user''\<rparr>)) messages
         in if hasChanges then normalized else messages))"

text \<open>The \<open>for\<close> loop of \<open>normalizeMessagesForGoogle\<close>: the index of the first message
  whose role is not \<open>system\<close>, \<open>-1\<close> when there is none.\<close>

fun firstNonSystemIdx :: "'v ChatMessage list \<Rightarrow> int" where
  "firstNonSystemIdx [] = -1"
| "firstNonSystemIdx (m # ms) =
     (if role m \<noteq> js ''system'' then 0
      else (let i = firstNonSystemIdx ms in if i < 0 then -1 else i + 1))"

definition continuing :: "'v ChatMessage" where
  "continuing = \<lparr>role = js ''user'', content = Text (js ''(continuing conversation)'')\<rparr>"

definition normalizeMessagesForGoogle :: "'v ChatMessage list \<Rightarrow> 'v ChatMessage list" where
  "normalizeMessagesForGoogle messages =
     (if messages = [] then messages
      else
        (let idx = firstNonSystemIdx messages in
         if idx = -1 then messages
         else
           (let firstRole = role (messages ! nat idx) in
            if firstRole = js ''user'' then messages
            else if firstRole = js ''assistant'' \<or> firstRole = js ''model'' then
              take (nat idx) messages @ [continuing] @ drop (nat idx) messages
            else messages)))"

definition isGoogleModel :: "jstring \<Rightarrow> bool" where
  "isGoogleModel modelId =
     (startsWith modelId (js ''google/'') \<or> startsWith modelId (js ''gemini''))"

text \<open>
  The message pipeline of \<open>tryModelRequest\<close> as far as roles and the order of messages
  go: role normalisation, then the Google normalisation for a Google model.
  \<open>sanitizeToolIds\<close> and \<open>normalizeMessagesForThinking\<close>, which run in between and
  after, rewrite tool-call ids and add a \<open>reasoning_content\<close> field; they leave roles,
  contents and the list's order and length as they are, and the message record here
  carries neither field.
\<close>

definition normalizeForDispatch :: "jstring \<Rightarrow> 'v ChatMessage list \<Rightarrow> 'v ChatMessage list" where
  "normalizeForDispatch modelId messages =
     (let messages = normalizeMessageRoles messages
      in if isGoogleModel modelId then normalizeMessagesForGoogle messages else messages)"

text \<open>The role of the first message that is not a system message, if there is one.\<close>

definition firstNonSystemRole :: "'v ChatMessage list \<Rightarrow> jstring option" where
  "firstNonSystemRole messages =
     (case dropWhile (\<lambda>m. role m = js ''system'') messages of
        [] \<Rightarrow> None
      | m # ms \<Rightarrow> Some (role m))"

text \<open>
  The request body read by \<open>convertToAnthropicFormat\<close> and the body it builds.
  \<open>max_tokens\<close> is a number or absent, \<open>stream\<close> is the truthiness of the field,
  \<open>temperature\<close>, \<open>top_p\<close> and \<open>tools\<close> are opaque values or absent.
\<close>

record 'v ChatRequest =
  req_model :: jstring
  req_messages :: "'v ChatMessage list option"
  max_tokens :: "int option"
  stream :: bool
  temperature :: "'v option"
  top_p :: "'v option"
  tools :: "'v option"

record 'v AnthropicRequest =
  a_model :: jstring
  a_messages :: "'v ChatMessage list"
  a_max_tokens :: int
  a_system :: "jstring option"
  a_stream :: "bool option"
  a_temperature :: "'v option"
  a_top_p :: "'v option"
  a_tools :: "'v option"

text \<open>The \<open>for\<close> loop of \<open>convertToAnthropicFormat\<close>, with its two variables
  \<open>system\<close> and \<open>nonSystemMessages\<close>; \<open>stringify\<close> is \<open>JSON.stringify\<close> on a content
  that is not a string.\<close>

fun extractSystem ::
  "('v \<Rightarrow> jstring) \<Rightarrow> 'v ChatMessage list \<Rightarrow> jstring option \<Rightarrow> 'v ChatMessage list
     \<Rightarrow> jstring option \<times> 'v ChatMessage list" where
  "extractSystem stringify [] system nonSystemMessages = (system, nonSystemMessages)"
| "extractSystem stringify (msg # rest) system nonSystemMessages =
     (if role msg = js ''system'' then
        extractSystem stringify rest
          (Some (case content msg of Text s \<Rightarrow> s | Structured v \<Rightarrow> stringify v))
          nonSystemMessages
      else
        extractSystem stringify rest system
          (nonSystemMessages @
             [\<lparr>role = (if role msg = js ''assistant'' then js ''assistant'' else js ''user''),
               content = content msg\<rparr>]))"

definition convertToAnthropicFormat ::
  "('v \<Rightarrow> jstring) \<Rightarrow> 'v ChatRequest \<Rightarrow> 'v AnthropicRequest" where
  "convertToAnthropicFormat stringify parsed =
     (let messages = (case req_messages parsed of Some ms \<Rightarrow> ms | None \<Rightarrow> []);
          (system, nonSystemMessages) = extractSystem stringify messages None []
      in \<lparr>a_model = req_model parsed,
          a_messages = nonSystemMessages,
          a_max_tokens = (case max_tokens parsed of
                            Some n \<Rightarrow> if n = 0 then 4096 else n
                          | None \<Rightarrow> 4096),
          a_system = (if truthy system then system else None),
          a_stream = (if stream parsed then Some True else None),
          a_temperature = temperature parsed,
          a_top_p = top_p parsed,
          a_tools = tools parsed\<rparr>)"

text \<open>What \<open>convertToAnthropicFormat\<close> does to one message that is not a system message,
  and the string it reads from a system message.\<close>

definition coerceRole :: "'v ChatMessage \<Rightarrow> 'v ChatMessage" where
  "coerceRole msg =
     \<lparr>role = (if role msg = js ''assistant'' then js ''assistant'' else js ''user''),
      content = content msg\<rparr>"

definition systemText :: "('v \<Rightarrow> jstring) \<Rightarrow> 'v ChatMessage \<Rightarrow> jstring" where
  "systemText stringify msg = (case content msg of Text s \<Rightarrow> s | Structured v \<Rightarrow> stringify v)"

text \<open>
  The guard of the one call of \<open>convertToAnthropicFormat\<close>, in \<open>tryModelRequest\<close>:
  \<open>upstream.provider === "anthropic" && !upstream.viaOpenRouter\<close>, where \<open>upstream\<close>
  carries the provider and the gateway flag of the access that \<open>resolveProviderAccess\<close>
  returned to \<open>buildUpstreamUrl\<close>. The function is private to \<open>proxy.ts\<close>.
\<close>

definition convertsToAnthropic :: "ApiKeysConfig \<Rightarrow> jstring \<Rightarrow> bool" where
  "convertsToAnthropic apiKeys modelId =
     (case resolveProviderAccess apiKeys modelId of
        None \<Rightarrow> False
      | Some access \<Rightarrow> provider access = js ''anthropic'' \<and> \<not> viaOpenRouter access)"

section \<open>Thinking tokens (proxy.ts)\<close>

text \<open>The classes of the four patterns: \<open>\s\<close>, the class of the full-width bar U+FF5C
  and the bar \<open>|\<close>, \<open>[^<>]\<close>, \<open>[^>]\<close> and \<open>[\s\S]\<close>; \<open>chr c\<close> is the single code unit
  \<open>c\<close> and \<open>seq\<close> the sequence of a list of patterns.\<close>

definition ws :: "nat \<Rightarrow> bool" where
  "ws c = (c = 9 \<or> c = 10 \<or> c = 11 \<or> c = 12 \<or> c = 13 \<or> c = 32 \<or> c = 160 \<or> c = 5760
           \<or> (8192 \<le> c \<and> c \<le> 8202) \<or> c = 8232 \<or> c = 8233 \<or> c = 8239 \<or> c = 8287
           \<or> c = 12288 \<or> c = 65279)"

definition bar :: "nat \<Rightarrow> bool" where
  "bar c = (c = 65372 \<or> c = 124)"

definition notAngle :: "nat \<Rightarrow> bool" where
  "notAngle c = (c \<noteq> 60 \<and> c \<noteq> 62)"

definition notGt :: "nat \<Rightarrow> bool" where
  "notGt c = (c \<noteq> 62)"

definition anyUnit :: "nat \<Rightarrow> bool" where
  "anyUnit c = True"

definition chr :: "nat \<Rightarrow> re" where
  "chr c = Chr (\<lambda>x. x = c)"

definition seq :: "re list \<Rightarrow> re" where
  "seq rs = foldr Seq rs Eps"

definition thinkingName :: re where
  "thinkingName =
     Alt (seq (lit_i ''think'' @ [Alt (seq (lit_i ''ing'')) Eps]))
         (Alt (seq (lit_i ''thought'')) (seq (lit_i ''antthinking'')))"

definition KIMI_BLOCK_RE :: "re list" where
  "KIMI_BLOCK_RE =
     [chr 60, Chr bar, Star notAngle] @ lit_i ''begin'' @ [Star notAngle, Chr bar, chr 62,
      LazyStar anyUnit,
      chr 60, Chr bar, Star notAngle] @ lit_i ''end'' @ [Star notAngle, Chr bar, chr 62]"

definition KIMI_TOKEN_RE :: "re list" where
  "KIMI_TOKEN_RE = [chr 60, Chr bar, Star notAngle, Chr bar, chr 62]"

definition THINKING_TAG_RE :: "re list" where
  "THINKING_TAG_RE =
     [chr 60, Star ws, Alt (chr 47) Eps, Star ws, thinkingName, WordB, Star notGt, chr 62]"

definition THINKING_BLOCK_RE :: "re list" where
  "THINKING_BLOCK_RE =
     [chr 60, Star ws, thinkingName, WordB, Star notGt, chr 62,
      LazyStar anyUnit,
      chr 60, Star ws, chr 47, Star ws, thinkingName, Star ws, chr 62]"

text \<open>
  \<open>String.prototype.replace\<close> with a \<open>g\<close> pattern and the empty replacement: the
  matches are found from left to right in the original string, each search starting
  where the last match ended, and are left out. \<open>skip\<close> counts the code units of the
  current match still to be left out.
\<close>

fun replace_go :: "re list \<Rightarrow> nat \<Rightarrow> nat option \<Rightarrow> jstring \<Rightarrow> jstring" where
  "replace_go r skip prev [] = []"
| "replace_go r (Suc skip) prev (c # cs) = replace_go r skip (Some c) cs"
| "replace_go r 0 prev (c # cs) =
     (case rmatch r prev (c # cs) of
        None \<Rightarrow> c # replace_go r 0 (Some c) cs
      | Some 0 \<Rightarrow> c # replace_go r 0 (Some c) cs
      | Some (Suc n) \<Rightarrow> replace_go r n (Some c) cs)"

definition replaceAll :: "re list \<Rightarrow> jstring \<Rightarrow> jstring" where
  "replaceAll r s = replace_go r 0 None s"

definition stripThinkingTokens :: "jstring \<Rightarrow> jstring" where
  "stripThinkingTokens contentText =
     (if contentText = [] then contentText
      else
        (let cleaned = replaceAll KIMI_BLOCK_RE contentText;
             cleaned = replaceAll KIMI_TOKEN_RE cleaned;
             cleaned = replaceAll THINKING_BLOCK_RE cleaned;
             cleaned = replaceAll THINKING_TAG_RE cleaned
         in cleaned))"


section \<open>Answering the client (proxy.ts)\<close>

text \<open>
  The upstream body after \<open>JSON.parse\<close>, read through the types the code casts it
  to. \<open>JSON.parse\<close> itself is not modelled: its result on the body is an argument of
  the functions below, next to the body's text. \<open>NotJson\<close> stands for a parse that
  throws; \<open>JsonNull\<close> for the body \<open>null\<close>, which parses, and on which the first
  property read (\<open>rawParsed.type\<close>, then \<open>rsp.id\<close>) throws a \<open>TypeError\<close> that the
  surrounding \<open>catch\<close> takes; \<open>AnthropicMessage\<close> for an object with
  \<open>type === "message"\<close> and a \<open>content\<close> that is an array of blocks;
  \<open>OtherJson\<close> for any other value, read as the type of \<open>rsp\<close> (a number, a string,
  a boolean or an array has none of the fields read; an object with
  \<open>type === "message"\<close> whose \<open>content\<close> is falsy is not converted, and one whose
  \<open>content\<close> is truthy and not an array makes the conversion throw, which leaves the
  body as it was; the elements of \<open>choices\<close> are taken to be objects, as the type of
  \<open>rsp\<close> declares them). Tool calls are opaque values of type \<open>'v\<close>.
\<close>

record 'v ResponseMessage =
  m_role :: "jstring option"
  m_content :: "jstring option"
  m_tool_calls :: "'v list option"

record 'v Choice =
  index :: "int option"
  message :: "'v ResponseMessage option"
  delta :: "'v ResponseMessage option"
  finish_reason :: "jstring option"

record Usage =
  prompt_tokens :: int
  completion_tokens :: int
  total_tokens :: int

record 'v Completion =
  c_id :: "jstring option"
  c_object :: "jstring option"
  created :: "int option"
  c_model :: "jstring option"
  choices :: "'v Choice list option"
  c_usage :: "Usage option"

record AnthropicBlock =
  b_type :: jstring
  b_text :: "jstring option"

record AnthropicUsage =
  input_tokens :: "int option"
  output_tokens :: "int option"

record AnthropicData =
  an_id :: "jstring option"
  an_model :: "jstring option"
  an_content :: "AnthropicBlock list"
  stop_reason :: "jstring option"
  an_usage :: "AnthropicUsage option"

datatype 'v parsedBody =
    NotJson
  | JsonNull
  | AnthropicMessage AnthropicData
  | OtherJson "'v Completion"

text \<open>Decimal digits of a number, for \<open>`chatcmpl-${Date.now()}`\<close>.\<close>

fun decimal :: "nat \<Rightarrow> jstring" where
  "decimal n = (if n < 10 then [48 + n] else decimal (n div 10) @ [48 + n mod 10])"

fun intOr :: "int option \<Rightarrow> int \<Rightarrow> int" where
  "intOr None d = d"
| "intOr (Some n) d = (if n = 0 then d else n)"

definition convertAnthropicResponseToOpenAI :: "AnthropicData \<Rightarrow> nat \<Rightarrow> 'v Completion" where
  "convertAnthropicResponseToOpenAI anthropicData now =
     (let textContent = concat (map (\<lambda>b. case b_text b of Some t \<Rightarrow> t | None \<Rightarrow> [])
                                 (filter (\<lambda>b. b_type b = js ''text'') (an_content anthropicData)))
      in \<lparr>c_id = Some (strOr (an_id anthropicData) (js ''chatcmpl-'' @ decimal now)),
          c_object = Some (js ''chat.completion''),
          created = Some (int (now div 1000)),
          c_model = an_model anthropicData,
          choices = Some
            [\<lparr>index = Some 0,
              message = Some \<lparr>m_role = Some (js ''assistant''), m_content = Some textContent,
                              m_tool_calls = None\<rparr>,
              delta = None,
              finish_reason = Some (if stop_reason anthropicData = Some (js ''end_turn'')
                                    then js ''stop''
                                    else strOr (stop_reason anthropicData) (js ''stop''))\<rparr>],
          c_usage = (case an_usage anthropicData of
                       None \<Rightarrow> None
                     | Some u \<Rightarrow>
                         Some \<lparr>prompt_tokens = intOr (input_tokens u) 0,
                               completion_tokens = intOr (output_tokens u) 0,
                               total_tokens = intOr (input_tokens u) 0
                                              + intOr (output_tokens u) 0\<rparr>)\<rparr>)"

text \<open>
  The non-streaming branch: the body written to the client is the upstream body's own
  bytes, or the serialisation of the converted Anthropic message (\<open>Serialised c\<close> stands
  for \<open>JSON.stringify(c)\<close>).
\<close>

datatype 'v written = Bytes jstring | Serialised "'v Completion"

definition nonStreamingBody :: "jstring \<Rightarrow> 'v parsedBody \<Rightarrow> nat \<Rightarrow> 'v written" where
  "nonStreamingBody finalBody rawParsed now =
     (case rawParsed of
        AnthropicMessage anthropicData \<Rightarrow>
          Serialised (convertAnthropicResponseToOpenAI anthropicData now)
      | OtherJson rsp \<Rightarrow> Bytes finalBody
      | JsonNull \<Rightarrow> Bytes finalBody
      | NotJson \<Rightarrow> Bytes finalBody)"

text \<open>
  The streaming branch. What is written is a list of frames: a frame made from a chunk
  object stands for \<open>`data: ${JSON.stringify(chunk)}\n\n`\<close> and keeps the choice index
  and the delta of the chunk; \<open>Verbatim\<close> is text written as it is.
\<close>

datatype 'v frame =
    RoleFrame int jstring
  | ContentFrame int jstring
  | ToolCallsFrame int "'v list"
  | FinishFrame int jstring
  | Verbatim jstring

fun splitLines :: "jstring \<Rightarrow> jstring \<Rightarrow> jstring list" where
  "splitLines [] line = [line]"
| "splitLines (c # cs) line =
     (if c = 10 then line # splitLines cs [] else splitLines cs (line @ [c]))"

fun joinLines :: "jstring list \<Rightarrow> jstring" where
  "joinLines [] = []"
| "joinLines [l] = l"
| "joinLines (l # ls) = l @ [10] @ joinLines ls"

definition choiceFrames :: "'v Choice \<Rightarrow> 'v frame list" where
  "choiceFrames choice =
     (let rawContent = nullish (case message choice of None \<Rightarrow> None | Some m \<Rightarrow> m_content m)
                         (nullish (case delta choice of None \<Rightarrow> None | Some d \<Rightarrow> m_content d)
                            (Some []));
          contentText = stripThinkingTokens (the rawContent);
          roleText = nullish (case message choice of None \<Rightarrow> None | Some m \<Rightarrow> m_role m)
                       (nullish (case delta choice of None \<Rightarrow> None | Some d \<Rightarrow> m_role d)
                          (Some (js ''assistant'')));
          idx = nullish (index choice) (Some 0);
          toolCalls = nullish (case message choice of None \<Rightarrow> None | Some m \<Rightarrow> m_tool_calls m)
                        (case delta choice of None \<Rightarrow> None | Some d \<Rightarrow> m_tool_calls d)
      in [RoleFrame (the idx) (the roleText)]
         @ (if contentText \<noteq> [] then [ContentFrame (the idx) contentText] else [])
         @ (case toolCalls of
              None \<Rightarrow> []
            | Some tcs \<Rightarrow> if tcs \<noteq> [] then [ToolCallsFrame (the idx) tcs] else [])
         @ [FinishFrame (the idx) (the (nullish (finish_reason choice) (Some (js ''stop''))))])"

definition chunkFrames :: "'v Completion \<Rightarrow> 'v frame list" where
  "chunkFrames rsp =
     (case choices rsp of None \<Rightarrow> [] | Some cs \<Rightarrow> concat (map choiceFrames cs))"

definition streamingFrames :: "jstring \<Rightarrow> 'v parsedBody \<Rightarrow> nat \<Rightarrow> 'v frame list" where
  "streamingFrames jsonStr rawParsed now =
     (let isSSE = (startsWith jsonStr (js ''data: '') \<or> startsWith jsonStr (js ''event: '')
                   \<or> startsWith jsonStr (js '': ''))
      in (if isSSE then
            [Verbatim (joinLines (filter
               (\<lambda>line. \<not> (startsWith line (js ''data: :'') \<or> startsWith line (js ''data: : '')))
               (splitLines jsonStr [])))]
          else
            (case rawParsed of
               AnthropicMessage anthropicData \<Rightarrow>
                 chunkFrames (convertAnthropicResponseToOpenAI anthropicData now)
             | OtherJson rsp \<Rightarrow> chunkFrames rsp
             | JsonNull \<Rightarrow> [Verbatim (js ''data: '' @ jsonStr @ [10, 10])]
             | NotJson \<Rightarrow> [Verbatim (js ''data: '' @ jsonStr @ [10, 10])]))
         @ [Verbatim (js ''data: [DONE]'' @ [10, 10])])"

section \<open>The in-flight entry of the dedup store (proxy.ts)\<close>

text \<open>
  The calls \<open>proxyRequest\<close> makes on the dedup store for one key, from
  \<open>markInflight\<close> on. The response's \<open>close\<close> event runs the handler registered after
  \<open>markInflight\<close>; it arrives either while the \<open>try\<close> block is suspended in an
  \<open>await\<close> (the client went away) or after the block has ended the response.
\<close>

datatype dedupCall = MarkInflight | Complete | RemoveInflight

record RequestState =
  completed :: bool
  heartbeatInterval :: bool
  dedupCalls :: "dedupCall list"

definition onClose :: "RequestState \<Rightarrow> RequestState" where
  "onClose st =
     (let st = (if heartbeatInterval st then st\<lparr>heartbeatInterval := False\<rparr> else st)
      in if \<not> completed st then st\<lparr>dedupCalls := dedupCalls st @ [RemoveInflight]\<rparr> else st)"

datatype tryOutcome = UpstreamAnswered | AllModelsFailed | Thrown

text \<open>The \<open>try\<close> block and its \<open>catch\<close>: the branch for no upstream response calls
  \<open>complete\<close> and returns; the branches that answer from an upstream response call
  \<open>complete\<close> and then set \<open>completed\<close>; an exception reaches the \<open>catch\<close> clause,
  which calls \<open>removeInflight\<close> and throws again.\<close>

definition tryBlock :: "tryOutcome \<Rightarrow> RequestState \<Rightarrow> RequestState" where
  "tryBlock outcome st =
     (case outcome of
        AllModelsFailed \<Rightarrow>
          st\<lparr>heartbeatInterval := False, dedupCalls := dedupCalls st @ [Complete]\<rparr>
      | UpstreamAnswered \<Rightarrow>
          st\<lparr>heartbeatInterval := False, dedupCalls := dedupCalls st @ [Complete],
             completed := True\<rparr>
      | Thrown \<Rightarrow>
          st\<lparr>heartbeatInterval := False, dedupCalls := dedupCalls st @ [RemoveInflight]\<rparr>)"

datatype closeTime = CloseWhileAwaiting | CloseAfterEnd

definition afterMarkInflight :: "bool \<Rightarrow> tryOutcome \<Rightarrow> closeTime \<Rightarrow> RequestState" where
  "afterMarkInflight isStreaming outcome closeAt =
     (let st = \<lparr>completed = False, heartbeatInterval = isStreaming,
                dedupCalls = [MarkInflight]\<rparr>;
          st = (if closeAt = CloseWhileAwaiting then onClose st else st);
          st = tryBlock outcome st
      in if closeAt = CloseAfterEnd then onClose st else st)"

section \<open>Concrete scenarios\<close>

text \<open>A configuration holding only a gateway key, two model ids, a tier table with
  one fallback, and a routing decision: the inputs of the worked examples below.\<close>

definition gatewayConfig :: ApiKeysConfig where
  "gatewayConfig =
     \<lparr>providers = [js ''openrouter'' \<mapsto> \<lparr>apiKey = js ''sk-or-1'', baseUrl = None\<rparr>]\<rparr>"

definition modelA :: jstring where
  "modelA = js ''openai/gpt-4o''"

definition modelB :: jstring where
  "modelB = js ''deepseek/deepseek-chat''"

definition twoModelRouting :: RoutingConfig where
  "twoModelRouting =
     \<lparr>tiers = (\<lambda>t. \<lparr>primary = modelA, fallback = [modelB]\<rparr>), agenticTiers = None\<rparr>"


text \<open>A chain filter that returns the two models whatever it is given: where no routing
  decision exists the filter is never called, and any will do.\<close>

definition chainAB :: chainFilter where
  "chainAB t tierConfigs estimatedTotalTokens getContextWindow = [modelA, modelB]"


text \<open>Two more model ids; a tier table whose chain has four models; a configuration
  holding a direct OpenAI key and nothing else; and an upstream that answers the first
  attempt with 503 and every later one with 400 and a body that names no provider
  error.\<close>

definition modelC :: jstring where
  "modelC = js ''xai/grok-4''"




definition failTwice :: "nat \<Rightarrow> jstring \<Rightarrow> fetch_outcome" where
  "failTwice i m =
     (if i = 0 then Responded 503 [] else Responded 400 (js ''Invalid JSON in request''))"

definition emptyState :: "jstring \<Rightarrow> rateLimits \<Rightarrow> LoopState" where
  "emptyState modelId rl =
     \<lparr>upstream = None, lastError = None, actualModelUsed = modelId, tried = [],
      rateLimitedModels = rl\<rparr>"

definition toolFirst :: "unit ChatMessage list" where
  "toolFirst = [\<lparr>role = js ''tool'', content = Text (js ''42'')\<rparr>,
                \<lparr>role = js ''user'', content = Text (js ''and now?'')\<rparr>]"

definition assistantFirst :: "unit ChatMessage list" where
  "assistantFirst = [\<lparr>role = js ''system'', content = Text (js ''Be brief.'')\<rparr>,
                     \<lparr>role = js ''assistant'', content = Text (js ''Hello'')\<rparr>]"

definition twoSystemRequest :: "unit ChatRequest" where
  "twoSystemRequest =
     \<lparr>req_model = js ''claude-sonnet-4-20250514'',
      req_messages = Some
        [\<lparr>role = js ''system'', content = Text (js ''You are a helpful assistant.'')\<rparr>,
         \<lparr>role = js ''system'', content = Text (js ''Answer in French.'')\<rparr>,
         \<lparr>role = js ''user'', content = Text (js ''Hi'')\<rparr>],
      max_tokens = None, stream = False, temperature = None, top_p = None, tools = None\<rparr>"

text \<open>The upstream answer of the worked example: an OpenAI-shaped completion whose
  content opens with a thinking block, as text and as parsed.\<close>

definition thinkBody :: jstring where
  "thinkBody = js ''{\"choices\":[{\"index\":0,\"message\":{\"role\":\"assistant\",\"content\":\"<think>plan</think>Hello\"},\"finish_reason\":\"stop\"}]}''"

definition thinkCompletion :: "unit Completion" where
  "thinkCompletion =
     \<lparr>c_id = None, c_object = None, created = None, c_model = None,
      choices = Some
        [\<lparr>index = Some 0,
          message = Some \<lparr>m_role = Some (js ''assistant''),
                          m_content = Some (js ''<think>plan</think>Hello''),
                          m_tool_calls = None\<rparr>,
          delta = None,
          finish_reason = Some (js ''stop'')\<rparr>],
      c_usage = None\<rparr>"

section \<open>Theorems about the key resolver\<close>

lemma anthropic_not_compatible:
  "js ''anthropic'' \<notin> set OPENAI_COMPATIBLE_PROVIDERS"
  by (simp add: OPENAI_COMPATIBLE_PROVIDERS_def)

lemma google_not_compatible:
  "js ''google'' \<notin> set OPENAI_COMPATIBLE_PROVIDERS"
  by (simp add: OPENAI_COMPATIBLE_PROVIDERS_def)

lemma prefix_anthropic: "getProviderFromModel (js ''anthropic/'' @ name) = js ''anthropic''"
  by (simp add: getProviderFromModel_def)

lemma prefix_google: "getProviderFromModel (js ''google/'' @ name) = js ''google''"
  by (simp add: getProviderFromModel_def)

text \<open>
  C3, as amended. For every key configuration and every model id, the key resolver
  returns what the four steps return once step 2 also asks that the base URL resolved
  for the provider (the configured override, else the default endpoint) is not empty:
  gateway access when the provider is not natively OpenAI-compatible and a gateway key
  exists; else direct access when a direct key exists, the resolved base URL is not
  empty and the provider speaks dialect A; else gateway access when a gateway key
  exists; else unreachable.
\<close>

theorem resolveProviderAccess_four_steps:
  "resolveProviderAccess config modelId =
     (let p = getProviderFromModel modelId in
      if \<not> speaksDialectA p \<and> hasOpenRouter config then Some (gatewayAccess config)
      else if truthy (getApiKey config p) \<and> truthy (getProviderBaseUrl config p)
              \<and> speaksDialectA p then Some (directAccess config p)
      else if hasOpenRouter config then Some (gatewayAccess config)
      else None)"
proof -
  let ?p = "getProviderFromModel modelId"
  show ?thesis
  proof (cases "?p \<in> set OPENAI_COMPATIBLE_PROVIDERS")
    case True
    then have "?p \<noteq> js ''anthropic''" "?p \<noteq> js ''google''"
      using anthropic_not_compatible google_not_compatible by metis+
    with True show ?thesis
      by (simp add: resolveProviderAccess_def speaksDialectA_def hasOpenRouter_def
          gatewayAccess_def directAccess_def getProviderBaseUrl_def Let_def)
  next
    case False
    then show ?thesis
      by (simp add: resolveProviderAccess_def speaksDialectA_def hasOpenRouter_def
          gatewayAccess_def getProviderBaseUrl_def Let_def)
  qed
qed

text \<open>
  C3, as stated, fails: with a direct OpenAI key whose base URL override is the empty
  string and no gateway key, step 2 of the specification returns direct access for
  \<open>openai/gpt-4o\<close>, and the code returns \<open>undefined\<close>.
\<close>

theorem resolveProviderAccess_four_steps_counterexample:
  "truthy (getApiKey emptyUrlConfig (getProviderFromModel (js ''openai/gpt-4o'')))
   \<and> speaksDialectA (getProviderFromModel (js ''openai/gpt-4o''))
   \<and> keyResolver_spec emptyUrlConfig (js ''openai/gpt-4o'')
       = Some \<lparr>access_apiKey = js ''sk-1'', access_baseUrl = Some [],
                provider = js ''openai'', viaOpenRouter = False\<rparr>
   \<and> resolveProviderAccess emptyUrlConfig (js ''openai/gpt-4o'') = None"
  by (simp add: emptyUrlConfig_def getProviderFromModel_def getApiKey_def speaksDialectA_def
      OPENAI_COMPATIBLE_PROVIDERS_def keyResolver_spec_def
      hasOpenRouter_def directAccess_def getProviderBaseUrl_def resolveProviderAccess_def
      PROVIDER_ENDPOINTS_def)

text \<open>
  C9. For every key configuration without a gateway (OpenRouter) key and every model id
  with provider prefix \<open>anthropic/\<close> or \<open>google/\<close>, \<open>resolveProviderAccess\<close> returns
  \<open>undefined\<close> and \<open>isModelAccessible\<close> returns false, whatever direct keys the
  configuration holds.
\<close>

theorem no_gateway_no_anthropic_google:
  assumes "\<not> hasOpenRouter config"
    and "modelId = js ''anthropic/'' @ name \<or> modelId = js ''google/'' @ name"
  shows "resolveProviderAccess config modelId = None \<and> \<not> isModelAccessible config modelId"
proof -
  from assms(2) have p: "getProviderFromModel modelId = js ''anthropic''
      \<or> getProviderFromModel modelId = js ''google''"
    using prefix_anthropic prefix_google by metis
  then have nc: "getProviderFromModel modelId \<notin> set OPENAI_COMPATIBLE_PROVIDERS"
    using anthropic_not_compatible google_not_compatible by metis
  from assms(1) have "\<not> truthy (getApiKey config (js ''openrouter''))"
    by (simp add: hasOpenRouter_def)
  with nc have "resolveProviderAccess config modelId = None"
    by (simp add: resolveProviderAccess_def Let_def)
  then show ?thesis
    by (simp add: isModelAccessible_def)
qed

theorem no_gateway_no_anthropic_google_witness:
  "\<not> hasOpenRouter directOnlyConfig
   \<and> truthy (getApiKey directOnlyConfig (js ''anthropic''))
   \<and> resolveProviderAccess directOnlyConfig (js ''anthropic/claude-sonnet-4'') = None
   \<and> \<not> isModelAccessible directOnlyConfig (js ''anthropic/claude-sonnet-4'')"
proof -
  have h: "\<not> hasOpenRouter directOnlyConfig"
    by (simp add: hasOpenRouter_def getApiKey_def directOnlyConfig_def)
  have k: "truthy (getApiKey directOnlyConfig (js ''anthropic''))"
    by (simp add: getApiKey_def directOnlyConfig_def)
  have m: "js ''anthropic/claude-sonnet-4'' = js ''anthropic/'' @ js ''claude-sonnet-4''"
    by simp
  from no_gateway_no_anthropic_google [OF h, of "js ''anthropic/claude-sonnet-4''"
      "js ''claude-sonnet-4''"] m h k
  show ?thesis by blast
qed

text \<open>Whatever the keys are, an access that does not go through the gateway is an access
  to an OpenAI-compatible provider: the branches of \<open>buildUpstreamUrl\<close> and
  \<open>tryModelRequest\<close> for a direct Anthropic or Google access are never entered.\<close>

lemma direct_access_is_openai_compatible:
  assumes "resolveProviderAccess config modelId = Some a"
  shows "viaOpenRouter a \<or> provider a \<in> set OPENAI_COMPATIBLE_PROVIDERS"
  using assms by (auto simp add: resolveProviderAccess_def Let_def split: if_splits)

lemma direct_access_not_anthropic_google:
  assumes "resolveProviderAccess config modelId = Some a" and "\<not> viaOpenRouter a"
  shows "provider a \<noteq> js ''anthropic'' \<and> provider a \<noteq> js ''google''"
  using direct_access_is_openai_compatible [OF assms(1)] assms(2)
    anthropic_not_compatible google_not_compatible by metis

text \<open>So the guard of the translation to the messages dialect never holds.\<close>

lemma convertsToAnthropic_never: "\<not> convertsToAnthropic apiKeys modelId"
proof (cases "resolveProviderAccess apiKeys modelId")
  case None
  then show ?thesis by (simp add: convertsToAnthropic_def)
next
  case (Some a)
  with direct_access_not_anthropic_google [OF Some] show ?thesis
    unfolding convertsToAnthropic_def by auto
qed

section \<open>Theorems about the patterns\<close>

lemma canMatch_Nil: "canMatch [] prev s"
  by (simp add: canMatch_def)

lemma canMatch_Chr:
  "canMatch (Chr P # k) prev s \<longleftrightarrow> (\<exists>c cs. s = c # cs \<and> P c \<and> canMatch k (Some c) cs)"
  by (cases s) (auto simp add: canMatch_def)

lemma canMatch_Star_Nil: "canMatch (Star P # k) prev [] \<longleftrightarrow> canMatch k prev []"
  by (simp add: canMatch_def)

lemma canMatch_Star_Cons:
  "canMatch (Star P # k) prev (c # cs) \<longleftrightarrow>
     (P c \<and> canMatch (Star P # k) (Some c) cs) \<or> canMatch k prev (c # cs)"
  by (auto simp add: canMatch_def split: option.splits)

lemma re_test_Nil: "re_test r prev [] \<longleftrightarrow> canMatch r prev []"
  by (simp add: canMatch_def)

lemma re_test_Cons:
  "re_test r prev (c # cs) \<longleftrightarrow> canMatch r prev (c # cs) \<or> re_test r (Some c) cs"
  by (simp add: canMatch_def)

lemma lit_i_Cons: "lit_i (c # w) = Chr (\<lambda>x. canon x = canon (of_char c)) # lit_i w"
  by (simp add: lit_i_def)

lemma lit_i_Nil: "lit_i [] = []"
  by (simp add: lit_i_def)

lemma sameFolded_Nil: "sameFolded x [] \<longleftrightarrow> x = []"
  by (simp add: sameFolded_def)

lemma sameFolded_Cons:
  "sameFolded x (c # w) \<longleftrightarrow>
     (\<exists>y ys. x = y # ys \<and> canon y = canon (of_char c) \<and> sameFolded ys w)"
  by (cases x) (auto simp add: sameFolded_def)

lemma canMatch_literal:
  "canMatch (lit_i w @ k) prev s \<longleftrightarrow>
     (\<exists>x r. s = x @ r \<and> sameFolded x w \<and> canMatch k (lastOr prev x) r)"
proof (induction w arbitrary: prev s)
  case Nil
  show ?case unfolding lit_i_Nil sameFolded_Nil by simp
next
  case (Cons c w)
  show ?case (is "?L \<longleftrightarrow> ?R")
  proof
    assume ?L
    then obtain c' cs where s: "s = c' # cs" and c: "canon c' = canon (of_char c)"
      and m: "canMatch (lit_i w @ k) (Some c') cs"
      unfolding lit_i_Cons append_Cons canMatch_Chr by blast
    from m Cons.IH [of "Some c'" cs] obtain x r where x: "cs = x @ r" "sameFolded x w"
      "canMatch k (lastOr (Some c') x) r" by blast
    have "s = (c' # x) @ r" using s x(1) by simp
    moreover have "sameFolded (c' # x) (c # w)" unfolding sameFolded_Cons using c x(2) by blast
    moreover have "canMatch k (lastOr prev (c' # x)) r" using x(3) by simp
    ultimately show ?R by blast
  next
    assume ?R
    then obtain x r where s: "s = x @ r" and f: "sameFolded x (c # w)"
      and m: "canMatch k (lastOr prev x) r" by blast
    from f obtain y ys where x: "x = y # ys" and c: "canon y = canon (of_char c)"
      and f': "sameFolded ys w" unfolding sameFolded_Cons by blast
    from m x have "canMatch k (lastOr (Some y) ys) r" by simp
    with f' Cons.IH [of "Some y" "ys @ r"] have "canMatch (lit_i w @ k) (Some y) (ys @ r)"
      by blast
    with c have "canMatch (Chr (\<lambda>x. canon x = canon (of_char c)) # (lit_i w @ k)) prev
        (y # ys @ r)"
      unfolding canMatch_Chr by blast
    then show ?L unfolding lit_i_Cons append_Cons s x by simp
  qed
qed

lemma canMatch_star:
  "canMatch (Star P # k) prev s \<longleftrightarrow>
     (\<exists>x r. s = x @ r \<and> list_all P x \<and> canMatch k (lastOr prev x) r)"
proof (induction s arbitrary: prev)
  case Nil
  show ?case unfolding canMatch_Star_Nil by simp
next
  case (Cons c cs)
  show ?case (is "?L \<longleftrightarrow> ?R")
  proof
    assume ?L
    then consider "P c \<and> canMatch (Star P # k) (Some c) cs" | "canMatch k prev (c # cs)"
      unfolding canMatch_Star_Cons by blast
    then show ?R
    proof cases
      case 1
      with Cons.IH [of "Some c"] obtain x r where "cs = x @ r" "list_all P x"
        "canMatch k (lastOr (Some c) x) r" by blast
      with 1 have "c # cs = (c # x) @ r \<and> list_all P (c # x)
          \<and> canMatch k (lastOr prev (c # x)) r" by simp
      then show ?thesis by blast
    next
      case 2
      then have "c # cs = [] @ (c # cs) \<and> list_all P [] \<and> canMatch k (lastOr prev []) (c # cs)"
        by simp
      then show ?thesis by blast
    qed
  next
    assume ?R
    then obtain x r where s: "c # cs = x @ r" and p: "list_all P x"
      and m: "canMatch k (lastOr prev x) r" by blast
    show ?L
    proof (cases x)
      case Nil
      with s m have "canMatch k prev (c # cs)" by simp
      then show ?thesis unfolding canMatch_Star_Cons by blast
    next
      case (Cons y ys)
      with s have y: "y = c" and cs: "cs = ys @ r" by simp_all
      from p Cons y have pc: "P c" and pys: "list_all P ys" by simp_all
      from m Cons y have "canMatch k (lastOr (Some c) ys) r" by simp
      with cs pys Cons.IH [of "Some c"] have "canMatch (Star P # k) (Some c) cs" by blast
      with pc show ?thesis unfolding canMatch_Star_Cons by blast
    qed
  qed
qed

lemma re_test_split:
  "re_test r prev s \<longleftrightarrow> (\<exists>u v. s = u @ v \<and> canMatch r (lastOr prev u) v)"
proof (induction s arbitrary: prev)
  case Nil
  show ?case unfolding re_test_Nil by simp
next
  case (Cons c cs)
  show ?case (is "?L \<longleftrightarrow> ?R")
  proof
    assume ?L
    then consider "canMatch r prev (c # cs)" | "re_test r (Some c) cs"
      unfolding re_test_Cons by blast
    then show ?R
    proof cases
      case 1
      then have "c # cs = [] @ (c # cs) \<and> canMatch r (lastOr prev []) (c # cs)" by simp
      then show ?thesis by blast
    next
      case 2
      with Cons.IH [of "Some c"] obtain u v where "cs = u @ v"
        "canMatch r (lastOr (Some c) u) v" by blast
      then have "c # cs = (c # u) @ v \<and> canMatch r (lastOr prev (c # u)) v" by simp
      then show ?thesis by blast
    qed
  next
    assume ?R
    then obtain u v where s: "c # cs = u @ v" and m: "canMatch r (lastOr prev u) v"
      by blast
    show ?L
    proof (cases u)
      case Nil
      with s m have "canMatch r prev (c # cs)" by simp
      then show ?thesis unfolding re_test_Cons by blast
    next
      case (Cons y ys)
      with s have "y = c" "cs = ys @ v" by simp_all
      with m Cons have "\<exists>u v. cs = u @ v \<and> canMatch r (lastOr (Some c) u) v" by auto
      with Cons.IH [of "Some c"] have "re_test r (Some c) cs" by blast
      then show ?thesis unfolding re_test_Cons by blast
    qed
  qed
qed

lemma canMatch_word:
  "canMatch (lit_i a) prev s \<longleftrightarrow> (\<exists>x r. s = x @ r \<and> sameFolded x a)"
  using canMatch_literal [of a "[]" prev s] canMatch_Nil by simp

lemma re_test_word:
  "re_test (lit_i a) prev s \<longleftrightarrow> (\<exists>u x v. s = u @ x @ v \<and> sameFolded x a)"
  unfolding re_test_split canMatch_word by blast

lemma canMatch_two_words:
  "canMatch (lit_i a @ [Star dot] @ lit_i b) prev s \<longleftrightarrow>
     (\<exists>x m y r. s = x @ m @ y @ r \<and> sameFolded x a \<and> list_all dot m \<and> sameFolded y b)"
proof -
  have "canMatch (lit_i a @ (Star dot # lit_i b)) prev s \<longleftrightarrow>
     (\<exists>x r1. s = x @ r1 \<and> sameFolded x a \<and>
        (\<exists>m r2. r1 = m @ r2 \<and> list_all dot m \<and> (\<exists>y r. r2 = y @ r \<and> sameFolded y b)))"
    unfolding canMatch_literal canMatch_star canMatch_word ..
  also have "\<dots> \<longleftrightarrow>
     (\<exists>x m y r. s = x @ m @ y @ r \<and> sameFolded x a \<and> list_all dot m \<and> sameFolded y b)"
    by blast
  finally show ?thesis by simp
qed

lemma re_test_two_words:
  "re_test (lit_i a @ [Star dot] @ lit_i b) prev s \<longleftrightarrow>
     (\<exists>u x m y v. s = u @ x @ m @ y @ v \<and> sameFolded x a \<and> list_all dot m \<and> sameFolded y b)"
  unfolding re_test_split canMatch_two_words by blast

lemma canMatch_word_then:
  "canMatch (lit_i a @ Star P # k) prev s \<longleftrightarrow>
     (\<exists>x m r. s = x @ m @ r \<and> sameFolded x a \<and> list_all P m
        \<and> canMatch k (lastOr (lastOr prev x) m) r)"
proof
  assume "canMatch (lit_i a @ Star P # k) prev s"
  then obtain x r1 where 1: "s = x @ r1" "sameFolded x a"
    "canMatch (Star P # k) (lastOr prev x) r1"
    unfolding canMatch_literal by blast
  from 1(3) obtain m r where 2: "r1 = m @ r" "list_all P m"
    "canMatch k (lastOr (lastOr prev x) m) r"
    unfolding canMatch_star by blast
  from 1 2 have "s = x @ m @ r \<and> sameFolded x a \<and> list_all P m
        \<and> canMatch k (lastOr (lastOr prev x) m) r" by simp
  then show "\<exists>x m r. s = x @ m @ r \<and> sameFolded x a \<and> list_all P m
        \<and> canMatch k (lastOr (lastOr prev x) m) r" by blast
next
  assume "\<exists>x m r. s = x @ m @ r \<and> sameFolded x a \<and> list_all P m
        \<and> canMatch k (lastOr (lastOr prev x) m) r"
  then obtain x m r where 1: "s = x @ m @ r" "sameFolded x a" "list_all P m"
    "canMatch k (lastOr (lastOr prev x) m) r" by blast
  then have "canMatch (Star P # k) (lastOr prev x) (m @ r)"
    unfolding canMatch_star by blast
  with 1(1,2) show "canMatch (lit_i a @ Star P # k) prev s"
    unfolding canMatch_literal by blast
qed

lemma canMatch_three_words:
  "canMatch (lit_i a @ [Star dot] @ lit_i b @ [Star dot] @ lit_i c) prev s \<longleftrightarrow>
     (\<exists>x m y n z r. s = x @ m @ y @ n @ z @ r \<and> sameFolded x a \<and> list_all dot m
        \<and> sameFolded y b \<and> list_all dot n \<and> sameFolded z c)"
proof
  assume "canMatch (lit_i a @ [Star dot] @ lit_i b @ [Star dot] @ lit_i c) prev s"
  then have "canMatch (lit_i a @ Star dot # (lit_i b @ Star dot # lit_i c)) prev s" by simp
  then obtain x m r1 where 1: "s = x @ m @ r1" "sameFolded x a" "list_all dot m"
    "canMatch (lit_i b @ Star dot # lit_i c) (lastOr (lastOr prev x) m) r1"
    unfolding canMatch_word_then by blast
  from 1(4) obtain y n r2 where 2: "r1 = y @ n @ r2" "sameFolded y b" "list_all dot n"
    "canMatch (lit_i c) (lastOr (lastOr (lastOr (lastOr prev x) m) y) n) r2"
    unfolding canMatch_word_then by blast
  from 2(4) obtain z r where 3: "r2 = z @ r" "sameFolded z c"
    unfolding canMatch_word by blast
  from 1 2 3 have "s = x @ m @ y @ n @ z @ r \<and> sameFolded x a \<and> list_all dot m
        \<and> sameFolded y b \<and> list_all dot n \<and> sameFolded z c" by simp
  then show "\<exists>x m y n z r. s = x @ m @ y @ n @ z @ r \<and> sameFolded x a \<and> list_all dot m
        \<and> sameFolded y b \<and> list_all dot n \<and> sameFolded z c" by blast
next
  assume "\<exists>x m y n z r. s = x @ m @ y @ n @ z @ r \<and> sameFolded x a \<and> list_all dot m
        \<and> sameFolded y b \<and> list_all dot n \<and> sameFolded z c"
  then obtain x m y n z r where 1: "s = x @ m @ y @ n @ z @ r" "sameFolded x a"
    "list_all dot m" "sameFolded y b" "list_all dot n" "sameFolded z c" by blast
  let ?p = "lastOr (lastOr prev x) m"
  have "canMatch (lit_i c) (lastOr (lastOr ?p y) n) (z @ r)"
    unfolding canMatch_word using 1(6) by blast
  with 1(4,5) have "canMatch (lit_i b @ Star dot # lit_i c) ?p (y @ n @ z @ r)"
    unfolding canMatch_word_then by blast
  with 1(2,3) have "canMatch (lit_i a @ Star dot # (lit_i b @ Star dot # lit_i c)) prev
      (x @ m @ y @ n @ z @ r)"
    unfolding canMatch_word_then by blast
  then show "canMatch (lit_i a @ [Star dot] @ lit_i b @ [Star dot] @ lit_i c) prev s"
    using 1(1) by simp
qed

lemma re_test_mentions: "re_test (lit_i a) prev s \<longleftrightarrow> mentions s a"
  unfolding mentions_def by (rule re_test_word)

lemma re_test_mentionsThen:
  "re_test (lit_i a @ [Star dot] @ lit_i b) prev s \<longleftrightarrow> mentionsThen s a b"
  unfolding mentionsThen_def by (rule re_test_two_words)

lemma re_test_mentionsThenThen:
  "re_test (lit_i a @ [Star dot] @ lit_i b @ [Star dot] @ lit_i c) prev s
     \<longleftrightarrow> mentionsThenThen s a b c"
proof
  assume "re_test (lit_i a @ [Star dot] @ lit_i b @ [Star dot] @ lit_i c) prev s"
  then obtain u v where 1: "s = u @ v"
    "canMatch (lit_i a @ [Star dot] @ lit_i b @ [Star dot] @ lit_i c) (lastOr prev u) v"
    unfolding re_test_split by blast
  from 1(2) obtain x m y n z r where 2: "v = x @ m @ y @ n @ z @ r" "sameFolded x a"
    "list_all dot m" "sameFolded y b" "list_all dot n" "sameFolded z c"
    unfolding canMatch_three_words by blast
  from 1(1) 2 have "s = u @ x @ m @ y @ n @ z @ r \<and> sameFolded x a \<and> list_all dot m
        \<and> sameFolded y b \<and> list_all dot n \<and> sameFolded z c" by simp
  then show "mentionsThenThen s a b c" unfolding mentionsThenThen_def by blast
next
  assume "mentionsThenThen s a b c"
  then obtain u x m y n z v where 1: "s = u @ x @ m @ y @ n @ z @ v" "sameFolded x a"
    "list_all dot m" "sameFolded y b" "list_all dot n" "sameFolded z c"
    unfolding mentionsThenThen_def by blast
  then have "canMatch (lit_i a @ [Star dot] @ lit_i b @ [Star dot] @ lit_i c) (lastOr prev u)
      (x @ m @ y @ n @ z @ v)"
    unfolding canMatch_three_words by blast
  with 1(1) show "re_test (lit_i a @ [Star dot] @ lit_i b @ [Star dot] @ lit_i c) prev s"
    unfolding re_test_split by blast
qed

lemma provider_error_patterns_meaning:
  "list_ex (\<lambda>pattern. re_test pattern None b) PROVIDER_ERROR_PATTERNS \<longleftrightarrow>
     mentions b ''billing''
     \<or> mentionsThen b ''insufficient'' ''balance''
     \<or> mentions b ''credits''
     \<or> mentionsThen b ''quota'' ''exceeded''
     \<or> mentionsThen b ''rate'' ''limit''
     \<or> mentionsThen b ''model'' ''unavailable''
     \<or> mentionsThen b ''service'' ''unavailable''
     \<or> mentions b ''capacity''
     \<or> mentions b ''overloaded''
     \<or> mentionsThen b ''temporarily'' ''unavailable''
     \<or> mentionsThenThen b ''api'' ''key'' ''invalid''
     \<or> mentionsThen b ''authentication'' ''failed''"
  unfolding PROVIDER_ERROR_PATTERNS_def list_ex_Cons_iff list_ex_Nil_iff re_test_mentions re_test_mentionsThen
    re_test_mentionsThenThen
  by blast

section \<open>Theorems about the fallback loop\<close>

declare fallbackLoop.simps [simp del]

lemma fallbackLoop_tried_head:
  "\<exists>r. tried (fallbackLoop apiKeys net clock i (m # ms) st) = tried st @ m # r"
proof (induction ms arbitrary: m st i)
  case Nil
  show ?case by (simp add: fallbackLoop.simps Let_def)
next
  case (Cons m' ms)
  let ?result = "tryModelRequest apiKeys m (net i m)"
  let ?st2 = "st\<lparr>tried := tried st @ [m],
      lastError := Some (strOr (errorBody ?result) (js ''Unknown error''),
                         numOr (errorStatus ?result) 500)\<rparr>"
  let ?st3 = "if errorStatus ?result = Some 429
      then ?st2\<lparr>rateLimitedModels := markRateLimited (rateLimitedModels ?st2) (clock i) m\<rparr>
      else ?st2"
  show ?case
  proof (cases "success ?result \<and> response ?result \<noteq> None")
    case True
    then show ?thesis by (subst fallbackLoop.simps) (simp add: Let_def)
  next
    case False
    show ?thesis
    proof (cases "res_isProviderError ?result = Some True")
      case True
      from Cons.IH [of "i + 1" m' ?st3]
      obtain r where r: "tried (fallbackLoop apiKeys net clock (i + 1) (m' # ms) ?st3)
          = tried ?st3 @ m' # r" by blast
      have "tried ?st3 = tried st @ [m]" by simp
      with r have "tried (fallbackLoop apiKeys net clock (i + 1) (m' # ms) ?st3)
          = tried st @ m # m' # r" by simp
      moreover have "fallbackLoop apiKeys net clock i (m # m' # ms) st
          = fallbackLoop apiKeys net clock (i + 1) (m' # ms) ?st3"
        using False True by (subst fallbackLoop.simps) (auto simp add: Let_def)
      ultimately show ?thesis by simp
    next
      case F2: False
      with False show ?thesis by (subst fallbackLoop.simps) (auto simp add: Let_def)
    qed
  qed
qed

lemma fallbackLoop_no_retry:
  assumes "res_isProviderError (tryModelRequest apiKeys m (net i m)) \<noteq> Some True \<or> ms = []"
  shows "tried (fallbackLoop apiKeys net clock i (m # ms) st) = tried st @ [m]"
  using assms by (subst fallbackLoop.simps) (auto simp add: Let_def)

lemma isProviderError_200: "\<not> isProviderError 200 b"
  by (simp add: isProviderError_def FALLBACK_STATUS_CODES_def)

lemma isProviderError_iff:
  "isProviderError s b \<longleftrightarrow>
     s \<in> {400, 401, 402, 403, 429, 500, 502, 503, 504}
     \<and> (500 \<le> s \<or> list_ex (\<lambda>pattern. re_test pattern None b) PROVIDER_ERROR_PATTERNS)"
  by (auto simp add: isProviderError_def FALLBACK_STATUS_CODES_def)

lemma gatewayConfig_accessible: "resolveProviderAccess gatewayConfig m \<noteq> None"
  by (simp add: resolveProviderAccess_def gatewayConfig_def getApiKey_def Let_def)

lemma tried_afterFailure: "tried (afterFailure apiKeys net clock i m st) = tried st @ [m]"
  by (simp add: afterFailure_def Let_def)

lemma fallbackLoop_continue:
  assumes "retryableFailure apiKeys net i m" and "ms \<noteq> []"
  shows "fallbackLoop apiKeys net clock i (m # ms) st
         = fallbackLoop apiKeys net clock (i + 1) ms (afterFailure apiKeys net clock i m st)"
  using assms
  by (subst fallbackLoop.simps) (auto simp add: retryableFailure_def afterFailure_def Let_def)

lemma fallbackLoop_stop:
  assumes "\<not> retryableFailure apiKeys net i m \<or> ms = []"
  shows "tried (fallbackLoop apiKeys net clock i (m # ms) st) = tried st @ [m]"
  using assms
  by (subst fallbackLoop.simps) (auto simp add: retryableFailure_def Let_def)


text \<open>An attempt that the upstream answers is a retryable failure exactly when
  \<open>isProviderError\<close> holds of the status and the body.\<close>

lemma retryableFailure_responded:
  assumes "resolveProviderAccess apiKeys m \<noteq> None" and "net i m = Responded s b"
  shows "retryableFailure apiKeys net i m \<longleftrightarrow> isProviderError s b"
  using assms isProviderError_200 [of b]
  by (auto simp add: retryableFailure_def tryModelRequest_def Let_def)

text \<open>
  C2. Let the loop stand at any attempt \<open>i\<close>, in any state, with a reachable model
  \<open>m1\<close> to attempt and a further model \<open>m2\<close> next in the list, and let the upstream
  answer the attempt with HTTP status \<open>s\<close> and body \<open>b\<close>. The loop goes on to attempt
  \<open>m2\<close> if and only if \<open>s\<close> is one of 400, 401, 402, 403, 429, 500, 502, 503, 504
  and, in addition, \<open>s \<ge> 500\<close> or \<open>b\<close> matches one of the provider error patterns;
  for every other \<open>(s, b)\<close> no further model is attempted: \<open>m1\<close> is the last one.
  When the loop goes on, it is the same loop at attempt \<open>i + 1\<close> on the rest of the
  list, so the same holds of the answer to every later attempt.
\<close>

theorem retryable_iff_status_and_pattern:
  assumes "resolveProviderAccess apiKeys m1 \<noteq> None"
    and "net i m1 = Responded s b"
  shows "((\<exists>r. tried (fallbackLoop apiKeys net clock i (m1 # m2 # ms) st)
                 = tried st @ m1 # m2 # r)
           \<longleftrightarrow> s \<in> {400, 401, 402, 403, 429, 500, 502, 503, 504}
                \<and> (500 \<le> s
                    \<or> list_ex (\<lambda>pattern. re_test pattern None b) PROVIDER_ERROR_PATTERNS))
       \<and> (tried (fallbackLoop apiKeys net clock i (m1 # m2 # ms) st) = tried st @ [m1]
           \<longleftrightarrow> \<not> (s \<in> {400, 401, 402, 403, 429, 500, 502, 503, 504}
                \<and> (500 \<le> s
                    \<or> list_ex (\<lambda>pattern. re_test pattern None b) PROVIDER_ERROR_PATTERNS)))
       \<and> (s \<in> {400, 401, 402, 403, 429, 500, 502, 503, 504}
                \<and> (500 \<le> s
                    \<or> list_ex (\<lambda>pattern. re_test pattern None b) PROVIDER_ERROR_PATTERNS)
           \<longrightarrow> fallbackLoop apiKeys net clock i (m1 # m2 # ms) st
               = fallbackLoop apiKeys net clock (i + 1) (m2 # ms)
                   (afterFailure apiKeys net clock i m1 st))"
proof -
  let ?loop = "fallbackLoop apiKeys net clock i (m1 # m2 # ms) st"
  have r: "retryableFailure apiKeys net i m1 \<longleftrightarrow> isProviderError s b"
    using retryableFailure_responded [of apiKeys m1 net i s b] assms by simp
  have cont: "isProviderError s b \<Longrightarrow> ?loop = fallbackLoop apiKeys net clock (i + 1) (m2 # ms)
                   (afterFailure apiKeys net clock i m1 st)"
    using fallbackLoop_continue [of apiKeys net i m1 "m2 # ms" clock st] r by simp
  have yes: "isProviderError s b \<Longrightarrow> \<exists>r. tried ?loop = tried st @ m1 # m2 # r"
  proof -
    assume p: "isProviderError s b"
    obtain r where "tried (fallbackLoop apiKeys net clock (i + 1) (m2 # ms)
          (afterFailure apiKeys net clock i m1 st))
        = tried (afterFailure apiKeys net clock i m1 st) @ m2 # r"
      using fallbackLoop_tried_head by blast
    with cont [OF p] show ?thesis by (simp add: tried_afterFailure)
  qed
  have no: "\<not> isProviderError s b \<Longrightarrow> tried ?loop = tried st @ [m1]"
    using fallbackLoop_stop [of apiKeys net i m1 "m2 # ms" clock st] r by simp
  show ?thesis
    using yes no cont isProviderError_iff [of s b] by auto
qed

text \<open>Three models and an upstream that answers the first attempt with 503 and the
  second with a 400 that names no provider error: the second model is attempted, the
  third is not.\<close>

theorem retryable_iff_status_and_pattern_witness:
  "resolveProviderAccess gatewayConfig modelA \<noteq> None
   \<and> resolveProviderAccess gatewayConfig modelB \<noteq> None
   \<and> failTwice 0 modelA = Responded 503 []
   \<and> failTwice 1 modelB = Responded 400 (js ''Invalid JSON in request'')
   \<and> \<not> list_ex (\<lambda>pattern. re_test pattern None (js ''Invalid JSON in request''))
        PROVIDER_ERROR_PATTERNS
   \<and> tried (fallbackLoop gatewayConfig failTwice (\<lambda>i. 0) 0 [modelA, modelB, modelC]
              (emptyState modelA Map.empty)) = [modelA, modelB]"
proof -
  let ?st0 = "emptyState modelA Map.empty"
  let ?st1 = "afterFailure gatewayConfig failTwice (\<lambda>i. 0) 0 modelA ?st0"
  have a: "resolveProviderAccess gatewayConfig modelA \<noteq> None"
    and b: "resolveProviderAccess gatewayConfig modelB \<noteq> None"
    by (rule gatewayConfig_accessible)+
  have n0: "failTwice 0 modelA = Responded 503 []" by (simp add: failTwice_def)
  have n1: "failTwice (0 + 1) modelB = Responded 400 (js ''Invalid JSON in request'')"
    by (simp add: failTwice_def)
  have p: "\<not> list_ex (\<lambda>pattern. re_test pattern None (js ''Invalid JSON in request''))
        PROVIDER_ERROR_PATTERNS"
    by (simp add: PROVIDER_ERROR_PATTERNS_def lit_i_def canon_def dot_def)
  from retryable_iff_status_and_pattern [where apiKeys = gatewayConfig and ?m1.0 = modelA
      and net = failTwice and i = 0 and s = 503 and b = "[]" and clock = "\<lambda>i. 0"
      and ?m2.0 = modelB and ms = "[modelC]" and st = ?st0, OF a n0]
  have s0: "fallbackLoop gatewayConfig failTwice (\<lambda>i. 0) 0 [modelA, modelB, modelC] ?st0
      = fallbackLoop gatewayConfig failTwice (\<lambda>i. 0) (0 + 1) [modelB, modelC] ?st1"
    by simp
  from retryable_iff_status_and_pattern [where apiKeys = gatewayConfig and ?m1.0 = modelB
      and net = failTwice and i = "0 + 1" and s = 400 and b = "js ''Invalid JSON in request''"
      and clock = "\<lambda>i. 0" and ?m2.0 = modelC and ms = "[]" and st = ?st1, OF b n1] p
  have s1: "tried (fallbackLoop gatewayConfig failTwice (\<lambda>i. 0) (0 + 1) [modelB, modelC] ?st1)
      = tried ?st1 @ [modelB]"
    by simp
  have t: "tried ?st1 = [modelA]"
    by (simp add: tried_afterFailure emptyState_def)
  have "tried (fallbackLoop gatewayConfig failTwice (\<lambda>i. 0) 0 [modelA, modelB, modelC] ?st0)
      = [modelA, modelB]"
    unfolding s0 s1 t by simp
  with a b n0 n1 p show ?thesis by simp
qed







lemma no_decision_for_explicit_or_pinned:
  "\<not> isAutoModel (trimLower m) \<Longrightarrow>
     fst (classifyRequest apiKeys config trimLower resolveModelAlias pinned routed (Some m))
       = None"
  "isAutoModel (trimLower m) \<Longrightarrow>
     classifyRequest apiKeys config trimLower resolveModelAlias (Some sessionModel) routed
       (Some m) = (None, sessionModel)"
  by (simp_all add: classifyRequest_def Let_def)

text \<open>
  C10. When no routing decision was produced and the request names a model, the list
  of models to try is that single model whatever the tier tables, the fallback chain,
  the context windows and the rate-limit marks are; exactly that model is attempted,
  whatever the upstream answers, and no rate-limit mark is written.
\<close>

theorem explicit_model_single_attempt:
  assumes "modelId \<noteq> []"
  shows "buildModelsToTry apiKeys config chainFilter getCtx rl now None modelId bodyLength
           maxTokens = ([modelId], rl)
    \<and> tried (attemptModels apiKeys config chainFilter getCtx net clock rl now None modelId
               bodyLength maxTokens) = [modelId]
    \<and> rateLimitedModels (attemptModels apiKeys config chainFilter getCtx net clock rl now
               None modelId bodyLength maxTokens) = rl"
proof -
  have b: "buildModelsToTry apiKeys config chainFilter getCtx rl now None modelId bodyLength
           maxTokens = ([modelId], rl)"
    using assms by (simp add: buildModelsToTry_def)
  let ?st = "\<lparr>upstream = None, lastError = None, actualModelUsed = modelId, tried = [],
             rateLimitedModels = rl\<rparr>"
  have t: "tried (fallbackLoop apiKeys net clock 0 [modelId] ?st) = [modelId]"
    using fallbackLoop_no_retry [of apiKeys modelId net 0 "[]" clock ?st] by simp
  have m: "rateLimitedModels (fallbackLoop apiKeys net clock 0 [modelId] ?st) = rl"
    by (subst fallbackLoop.simps) (simp add: Let_def)
  show ?thesis using b t m by (simp add: attemptModels_def)
qed

theorem explicit_model_single_attempt_witness:
  "modelA \<noteq> []
   \<and> tried (attemptModels gatewayConfig twoModelRouting chainAB (\<lambda>m. 128000)
              (\<lambda>i m. Responded 429 (js ''Rate limit exceeded'')) (\<lambda>i. 60001) Map.empty 60000
              None modelA 100 4096) = [modelA]
   \<and> rateLimitedModels (attemptModels gatewayConfig twoModelRouting chainAB (\<lambda>m. 128000)
              (\<lambda>i m. Responded 429 (js ''Rate limit exceeded'')) (\<lambda>i. 60001) Map.empty 60000
              None modelA 100 4096) = Map.empty"
proof -
  have h: "modelA \<noteq> []" by (simp add: modelA_def)
  from explicit_model_single_attempt [OF h, of gatewayConfig twoModelRouting chainAB
      "\<lambda>m. 128000" Map.empty 60000 100 4096
      "\<lambda>i m. Responded 429 (js ''Rate limit exceeded'')" "\<lambda>i. 60001"] h
  show ?thesis by blast
qed

section \<open>Theorems about message normalisation and translation\<close>

lemma firstNonSystemIdx_takeWhile:
  "firstNonSystemIdx ms =
     (if dropWhile (\<lambda>m. role m = js ''system'') ms = [] then -1
      else int (length (takeWhile (\<lambda>m. role m = js ''system'') ms)))"
  by (induction ms) (simp_all add: Let_def)

lemma dropWhile_after_takeWhile:
  "\<not> P c \<Longrightarrow> dropWhile P (takeWhile P xs @ c # ys) = c # ys"
  by (induction xs) auto

lemma nth_length_takeWhile_hd:
  "dropWhile P xs = y # ys \<Longrightarrow> xs ! length (takeWhile P xs) = y"
  by (induction xs) (auto split: if_splits)

text \<open>
  C7, as amended. \<open>normalizeMessagesForGoogle\<close> injects the synthetic message
  \<open>user: "(continuing conversation)"\<close> before the first message that is not a system
  message exactly when the role of that message is \<open>assistant\<close> or \<open>model\<close>; in every
  other case (the role is \<open>user\<close>, the role is another one such as \<open>tool\<close> or
  \<open>function\<close>, or every message is a system message) the list is returned unchanged.
  So after normalisation the first non-system message has role \<open>user\<close> when its role
  was \<open>user\<close>, \<open>assistant\<close> or \<open>model\<close>, and keeps its role otherwise.
\<close>

theorem google_first_role:
  "normalizeMessagesForGoogle ms =
     (case firstNonSystemRole ms of
        None \<Rightarrow> ms
      | Some r \<Rightarrow>
          if r = js ''assistant'' \<or> r = js ''model''
          then takeWhile (\<lambda>m. role m = js ''system'') ms @ continuing
                 # dropWhile (\<lambda>m. role m = js ''system'') ms
          else ms)
   \<and> firstNonSystemRole (normalizeMessagesForGoogle ms) =
     (case firstNonSystemRole ms of
        None \<Rightarrow> None
      | Some r \<Rightarrow> if r = js ''assistant'' \<or> r = js ''model'' then Some (js ''user'') else Some r)"
proof -
  define P where "P = (\<lambda>m::'a ChatMessage. role m = js ''system'')"
  define A where "A = js ''assistant''"
  define M where "M = js ''model''"
  define U where "U = js ''user''"
  have c: "\<not> P continuing" "role continuing = U"
    by (simp_all add: continuing_def P_def U_def)
  have u: "U \<noteq> A" "U \<noteq> M" by (simp_all add: U_def A_def M_def)
  have idx: "firstNonSystemIdx ms =
      (if dropWhile P ms = [] then -1 else int (length (takeWhile P ms)))"
    unfolding P_def by (rule firstNonSystemIdx_takeWhile)
  have role_def: "\<And>xs. firstNonSystemRole xs =
      (case dropWhile P xs of [] \<Rightarrow> None | m # ms \<Rightarrow> Some (role m))"
    unfolding P_def firstNonSystemRole_def ..
  have norm_def: "normalizeMessagesForGoogle ms =
     (if ms = [] then ms
      else
        (let idx = firstNonSystemIdx ms in
         if idx = -1 then ms
         else
           (let firstRole = role (ms ! nat idx) in
            if firstRole = U then ms
            else if firstRole = A \<or> firstRole = M then
              take (nat idx) ms @ [continuing] @ drop (nat idx) ms
            else ms)))"
    unfolding normalizeMessagesForGoogle_def U_def A_def M_def ..
  have split: "normalizeMessagesForGoogle ms =
     (case firstNonSystemRole ms of
        None \<Rightarrow> ms
      | Some r \<Rightarrow>
          if r = A \<or> r = M then takeWhile P ms @ continuing # dropWhile P ms else ms)"
  proof (cases "dropWhile P ms")
    case Nil
    show ?thesis unfolding norm_def role_def idx Nil by simp
  next
    case (Cons m rest)
    have d: "drop (length (takeWhile P ms)) ms = dropWhile P ms"
      by (simp add: dropWhile_eq_drop)
    have t: "take (length (takeWhile P ms)) ms = takeWhile P ms"
      by (simp add: takeWhile_eq_take [symmetric])
    have nth: "ms ! length (takeWhile P ms) = m"
      using Cons by (rule nth_length_takeWhile_hd)
    from Cons have ne: "ms \<noteq> []" by auto
    show ?thesis
      using Cons ne d t nth u by (auto simp add: norm_def role_def idx Let_def)
  qed
  have f: "firstNonSystemRole (takeWhile P ms @ continuing # dropWhile P ms) = Some U"
    using c by (simp add: role_def dropWhile_after_takeWhile)
  have both: "normalizeMessagesForGoogle ms =
     (case firstNonSystemRole ms of
        None \<Rightarrow> ms
      | Some r \<Rightarrow>
          if r = A \<or> r = M then takeWhile P ms @ continuing # dropWhile P ms else ms)
   \<and> firstNonSystemRole (normalizeMessagesForGoogle ms) =
     (case firstNonSystemRole ms of
        None \<Rightarrow> None
      | Some r \<Rightarrow> if r = A \<or> r = M then Some U else Some r)"
    unfolding split using f by (auto split: option.splits)
  then show ?thesis unfolding P_def A_def M_def U_def .
qed

text \<open>The injection at work: a system message, then the assistant.\<close>

lemma google_injects_before_assistant:
  "normalizeForDispatch (js ''google/gemini-2.5-pro'') assistantFirst
     = [\<lparr>role = js ''system'', content = Text (js ''Be brief.'')\<rparr>,
        \<lparr>role = js ''user'', content = Text (js ''(continuing conversation)'')\<rparr>,
        \<lparr>role = js ''assistant'', content = Text (js ''Hello'')\<rparr>]"
  by (simp add: isGoogleModel_def normalizeForDispatch_def normalizeMessageRoles_def
      VALID_ROLES_def assistantFirst_def normalizeMessagesForGoogle_def continuing_def
      Let_def)

text \<open>
  C7, as stated, fails: a conversation dispatched to \<open>google/gemini-2.5-pro\<close> whose
  first message has role \<open>tool\<close> leaves the pipeline unchanged, and its first
  non-system message still has role \<open>tool\<close>.
\<close>

theorem google_first_role_counterexample:
  "isGoogleModel (js ''google/gemini-2.5-pro'')
   \<and> normalizeForDispatch (js ''google/gemini-2.5-pro'') toolFirst = toolFirst
   \<and> firstNonSystemRole (normalizeForDispatch (js ''google/gemini-2.5-pro'') toolFirst)
       = Some (js ''tool'')
   \<and> js ''tool'' \<noteq> js ''user''"
  by (simp add: isGoogleModel_def normalizeForDispatch_def normalizeMessageRoles_def
      VALID_ROLES_def toolFirst_def normalizeMessagesForGoogle_def firstNonSystemRole_def
      Let_def)

lemma extractSystem_filter:
  "extractSystem stringify ms system acc =
     ((case filter (\<lambda>m. role m = js ''system'') ms of
         [] \<Rightarrow> system
       | x # xs \<Rightarrow> Some (systemText stringify (last (x # xs)))),
      acc @ map coerceRole (filter (\<lambda>m. role m \<noteq> js ''system'') ms))"
proof (induction ms arbitrary: system acc)
  case Nil
  show ?case by simp
next
  case (Cons m ms)
  show ?case
  proof (cases "role m = js ''system''")
    case True
    then show ?thesis
      using Cons.IH [of "Some (systemText stringify m)" acc]
      by (simp add: systemText_def split: list.splits)
  next
    case False
    then show ?thesis
      using Cons.IH [of system "acc @ [coerceRole m]"]
      by (simp add: coerceRole_def)
  qed
qed

text \<open>
  What \<open>convertToAnthropicFormat\<close> returns, as a function: the messages that are not
  system messages, each coerced to \<open>assistant\<close> (when that is its role) or \<open>user\<close>,
  in their order; as \<open>system\<close> the content of the last system message, absent when
  there is none or it is empty; as \<open>max_tokens\<close> 4096 when the field is absent or zero.
  No request reaches the function (\<open>convertsToAnthropic_never\<close>).
\<close>

lemma convertToAnthropicFormat_result:
  fixes stringify :: "'v \<Rightarrow> jstring" and parsed :: "'v ChatRequest"
  defines "messages \<equiv> (case req_messages parsed of Some ms \<Rightarrow> ms | None \<Rightarrow> [])"
  defines "systems \<equiv> filter (\<lambda>m. role m = js ''system'') messages"
  shows "a_messages (convertToAnthropicFormat stringify parsed)
           = map coerceRole (filter (\<lambda>m. role m \<noteq> js ''system'') messages)
    \<and> list_all (\<lambda>m. role m = js ''user'' \<or> role m = js ''assistant'')
         (a_messages (convertToAnthropicFormat stringify parsed))
    \<and> a_system (convertToAnthropicFormat stringify parsed)
           = (if systems = [] \<or> systemText stringify (last systems) = [] then None
              else Some (systemText stringify (last systems)))
    \<and> a_max_tokens (convertToAnthropicFormat stringify parsed)
           = (case max_tokens parsed of None \<Rightarrow> 4096 | Some n \<Rightarrow> if n = 0 then 4096 else n)"
proof -
  have m: "a_messages (convertToAnthropicFormat stringify parsed)
           = map coerceRole (filter (\<lambda>m. role m \<noteq> js ''system'') messages)"
    by (simp add: convertToAnthropicFormat_def extractSystem_filter messages_def Let_def)
  have r: "list_all (\<lambda>m. role m = js ''user'' \<or> role m = js ''assistant'')
         (map coerceRole (filter (\<lambda>m. role m \<noteq> js ''system'') messages))"
    by (simp add: list_all_iff coerceRole_def)
  have s: "a_system (convertToAnthropicFormat stringify parsed)
           = (if systems = [] \<or> systemText stringify (last systems) = [] then None
              else Some (systemText stringify (last systems)))"
    by (cases systems)
       (simp_all add: convertToAnthropicFormat_def extractSystem_filter messages_def
         systems_def Let_def)
  have t: "a_max_tokens (convertToAnthropicFormat stringify parsed)
           = (case max_tokens parsed of None \<Rightarrow> 4096 | Some n \<Rightarrow> if n = 0 then 4096 else n)"
    by (simp add: convertToAnthropicFormat_def Let_def split: prod.splits)
  show ?thesis using m r s t by simp
qed

text \<open>Handed two system messages, the function keeps the second.\<close>

lemma convertToAnthropicFormat_two_systems:
  "a_system (convertToAnthropicFormat (\<lambda>v. []) twoSystemRequest)
     = Some (js ''Answer in French.'')"
  by (simp add: twoSystemRequest_def convertToAnthropicFormat_def Let_def)

section \<open>Theorems about the answer to the client and the dedup store\<close>

lemmas strip_defs = stripThinkingTokens_def replaceAll_def KIMI_BLOCK_RE_def KIMI_TOKEN_RE_def
  THINKING_BLOCK_RE_def THINKING_TAG_RE_def thinkingName_def seq_def chr_def lit_i_def
  canon_def ws_def bar_def notAngle_def notGt_def anyUnit_def isWordChar_def Let_def

text \<open>
  C1 does not hold of the code. An upstream completion whose content is
  \<open><think>plan</think>Hello\<close> reaches the client of a non-streaming request byte for
  byte, thinking block included: the non-streaming branch never calls
  \<open>stripThinkingTokens\<close>. The streaming branch, given the same upstream body, writes
  the content \<open>Hello\<close>.
\<close>

theorem non_streaming_keeps_thinking_block:
  "nonStreamingBody thinkBody (OtherJson thinkCompletion) 0 = Bytes thinkBody
   \<and> str_includes thinkBody (js ''<think>'')
   \<and> streamingFrames thinkBody (OtherJson thinkCompletion) 0
      = [RoleFrame 0 (js ''assistant''), ContentFrame 0 (js ''Hello''),
         FinishFrame 0 (js ''stop''), Verbatim (js ''data: [DONE]'' @ [10, 10])]"
  by (simp add: nonStreamingBody_def thinkBody_def thinkCompletion_def streamingFrames_def
      chunkFrames_def choiceFrames_def strip_defs)

text \<open>Two more ways a thinking tag reaches the client: an upstream body that is already
  an event stream is forwarded without a look at its content, and one pass of the
  replacements can leave a tag that the removed text was hiding.\<close>

lemma sse_passthrough_keeps_thinking_tag:
  "streamingFrames (js ''data: {\"choices\":[{\"delta\":{\"content\":\"<think>x\"}}]}'')
     (NotJson :: unit parsedBody) 0
   = [Verbatim (js ''data: {\"choices\":[{\"delta\":{\"content\":\"<think>x\"}}]}''),
      Verbatim (js ''data: [DONE]'' @ [10, 10])]"
  by (simp add: streamingFrames_def)

lemma strip_leaves_nested_tag:
  "stripThinkingTokens (js ''<thi<think>nk>'') = js ''<think>''"
  by (simp add: strip_defs)

text \<open>
  C4 does not hold of the code. When every model has failed, \<open>proxyRequest\<close> calls
  \<open>complete\<close> and returns without setting \<open>completed\<close>; the \<open>close\<close> handler of
  the response then finds \<open>completed\<close> false and calls \<open>removeInflight\<close> as well, so
  \<open>markInflight\<close> is followed by both calls. On the path that answers from an upstream
  response, \<open>completed\<close> is set and \<open>complete\<close> is the only call.
\<close>

theorem all_models_failed_completes_and_removes:
  "dedupCalls (afterMarkInflight False AllModelsFailed CloseAfterEnd)
     = [MarkInflight, Complete, RemoveInflight]
   \<and> dedupCalls (afterMarkInflight True AllModelsFailed CloseAfterEnd)
     = [MarkInflight, Complete, RemoveInflight]
   \<and> dedupCalls (afterMarkInflight False UpstreamAnswered CloseAfterEnd)
     = [MarkInflight, Complete]"
  by (simp add: afterMarkInflight_def tryBlock_def onClose_def Let_def)

text \<open>The exception path calls \<open>removeInflight\<close> in the \<open>catch\<close> clause and once more
  when the response closes; a client that goes away while the request is in flight sees
  \<open>removeInflight\<close> followed by \<open>complete\<close>.\<close>

lemma exception_and_disconnect_paths:
  "dedupCalls (afterMarkInflight False Thrown CloseAfterEnd)
     = [MarkInflight, RemoveInflight, RemoveInflight]
   \<and> dedupCalls (afterMarkInflight False UpstreamAnswered CloseWhileAwaiting)
     = [MarkInflight, RemoveInflight, Complete]"
  by (simp add: afterMarkInflight_def tryBlock_def onClose_def Let_def)

end
